theory Spec2Isabelle
  imports Main "HOL-Library.Word"
begin

unbundle bit_operations_syntax

section \<open>Machine types\<close>

type_synonym u8 = "8 word"
type_synonym u32 = "32 word"
type_synonym s32 = "32 word"
type_synonym u64 = "64 word"

text \<open>
  Pointers into a buffer are kept as 64-bit byte offsets from the buffer's base
  (\<open>size_t\<close> and \<open>uintptr_t\<close> are 64 bits wide on the x86-64 host of Jit64).
  A C++ \<open>int\<close> is a 32-bit word; \<open>sint\<close> reads it as two's complement and
  \<open>\<le>s\<close>, \<open><s\<close> are the signed comparisons.
\<close>

section \<open>VideoCommon/Fifo.cpp\<close>

subsection \<open>Constants and state\<close>

definition FIFO_SIZE :: u64 where
  "FIFO_SIZE = 2 * 1024 * 1024"

definition GPU_TIME_SLOT_SIZE :: s32 where
  "GPU_TIME_SLOT_SIZE = 1000"

text \<open>
  Modelled from the spec: \<open>GPFifo::GATHER_PIPE_SIZE\<close> is declared in Core/HW/GPFifo.h,
  which is not part of the sources at hand; the specification gives the constant as 32 bytes.
  It is used at the width of whatever it is compared with or added to.
\<close>

definition GATHER_PIPE_SIZE :: "'a::len word" where
  "GATHER_PIPE_SIZE = 32"

subsection \<open>Single-precision arithmetic\<close>

text \<open>
  \<open>s_config_sync_gpu_overclock\<close> is a \<open>float\<close>, an IEEE 754 binary32 value: \<open>Finite m e\<close> stands
  for \<open>m * 2 ^ e\<close> (with \<open>\<bar>m\<bar> < 2 ^ 24\<close> for a value of the format), \<open>Not_finite\<close> for the
  infinities and the NaNs. A result is rounded to 24 significant bits in the rounding direction of
  the host thread. The exponent is left unbounded, because only \<open>int (ticks * overclock)\<close> is
  computed: a product that overflows binary32 is outside the range of \<open>int\<close> whether it is rounded
  to an infinity or not, and a product that underflows converts to 0 whether it is rounded to a
  subnormal or not.
\<close>

datatype float = Finite int int | Not_finite

datatype rounding_mode = To_nearest | Toward_zero | Upward | Downward

fun bit_length :: "nat \<Rightarrow> nat" where
  "bit_length n = (if n = 0 then 0 else Suc (bit_length (n div 2)))"

text \<open>\<open>round_div mode m d\<close> is \<open>m / d\<close> rounded to an integer, for \<open>0 < d\<close>; ties go to the even one.\<close>

definition round_div :: "rounding_mode \<Rightarrow> int \<Rightarrow> int \<Rightarrow> int" where
  "round_div mode m d =
     (let q = m div d; r = m mod d
      in case mode of
           Downward \<Rightarrow> q
         | Upward \<Rightarrow> (if r = 0 then q else q + 1)
         | Toward_zero \<Rightarrow> (if r = 0 \<or> 0 \<le> m then q else q + 1)
         | To_nearest \<Rightarrow> (if 2 * r < d then q
                          else if d < 2 * r then q + 1
                          else if even q then q else q + 1))"

definition round_float :: "rounding_mode \<Rightarrow> int \<Rightarrow> int \<Rightarrow> float" where
  "round_float mode m e =
     (let s = bit_length (nat \<bar>m\<bar>) - 24
      in Finite (round_div mode m (2 ^ s)) (e + int s))"

definition int_to_float :: "rounding_mode \<Rightarrow> int \<Rightarrow> float" where
  "int_to_float mode i = round_float mode i 0"

fun float_mul :: "rounding_mode \<Rightarrow> float \<Rightarrow> float \<Rightarrow> float" where
  "float_mul mode (Finite m1 e1) (Finite m2 e2) = round_float mode (m1 * m2) (e1 + e2)"
| "float_mul mode _ _ = Not_finite"

text \<open>
  \<open>int (x)\<close> truncates towards zero; the conversion is undefined when the truncated value is not
  an \<open>int\<close> (and for an infinity or a NaN): \<open>None\<close>.
\<close>

fun float_to_int :: "float \<Rightarrow> s32 option" where
  "float_to_int (Finite m e) =
     (let t = (if 0 \<le> e then m * 2 ^ nat e else sgn m * (\<bar>m\<bar> div 2 ^ nat (- e)))
      in if - (2 ^ 31) \<le> t \<and> t < 2 ^ 31 then Some (word_of_int t) else None)"
| "float_to_int Not_finite = None"

text \<open>
  The fields of the command processor's FIFO record that Fifo.cpp reads and writes
  (\<open>command_processor.GetFifo()\<close>; the record itself is declared in CommandProcessor.h).
\<close>

record cp_fifo =
  bFF_GPReadEnable :: u32
  bFF_BPEnable :: u32
  CPBase :: u32
  CPEnd :: u32
  CPReadPointer :: u32
  CPBreakpoint :: u32
  CPReadWriteDistance :: u32
  SafeCPReadPointer :: u32

text \<open>
  Calls that leave Fifo.cpp (alerts, the SIMD state helpers, the scheduler, the blocking loop and
  the wakeup event) are recorded in the order they are made.
\<close>

datatype fifo_event =
    PanicAlert_FifoOutOfBounds u64
  | PanicAlert_DesyncedReadPointers
  | PanicAlert_AuxFifoNotSynced u64 u64
  | PanicAlert_AbsurdlyLargeAuxBuffer
  | SaveSIMDState
  | LoadDefaultSIMDState
  | LoadSIMDState
  | SetCPStatusFromGPU
  | Mainloop_Wakeup
  | ScheduleEvent s32
  | SyncWakeupEvent_Wait

text \<open>
  The file-level statics of Fifo.cpp. Buffer contents are functions from byte offsets, pointers
  are offsets from the base of their buffer.
\<close>

record fifo_state =
  s_fifo_aux_data :: "nat \<Rightarrow> u8"
  s_fifo_aux_write_ptr :: u64
  s_fifo_aux_read_ptr :: u64
  s_use_deterministic_gpu_thread :: bool
  s_video_buffer :: "nat \<Rightarrow> u8"
  s_video_buffer_read_ptr :: u64
  s_video_buffer_write_ptr :: u64
  s_video_buffer_seen_ptr :: u64
  s_video_buffer_pp_read_ptr :: u64
  s_sync_ticks :: s32
  s_syncing_suspended :: bool
  s_config_sync_gpu :: bool
  s_config_sync_gpu_max_distance :: s32
  s_config_sync_gpu_min_distance :: s32
  s_config_sync_gpu_overclock :: float
  cp :: cp_fifo
  events :: "fifo_event list"

text \<open>
  What Fifo.cpp calls but does not define: guest memory (\<open>guest_memory a k\<close> is the \<open>k\<close>-th byte
  \<open>CopyFromEmu\<close> delivers for guest address \<open>a\<close>), the opcode decoder (\<open>RunFifo buf start end\<close>
  returns the new read pointer and the cycles it counted), the rounding direction of the
  calling thread's floating-point unit (the translator sets it as the guest asks), and the
  blocking loop and wakeup event shared with the GPU thread (\<open>mainloop_Wait\<close> and
  \<open>sync_wakeup_event_Wait\<close> give the state the CPU thread finds when the wait is over).
\<close>

record fifo_env =
  guest_memory :: "u32 \<Rightarrow> nat \<Rightarrow> u8"
  RunFifo :: "(nat \<Rightarrow> u8) \<Rightarrow> u64 \<Rightarrow> u64 \<Rightarrow> u64 \<times> u32"
  RunFifo_preprocess :: "(nat \<Rightarrow> u8) \<Rightarrow> u64 \<Rightarrow> u64 \<Rightarrow> u64"
  host_rounding_mode :: rounding_mode
  IsDualCoreMode :: bool
  mainloop_Wait :: "fifo_state \<Rightarrow> fifo_state"
  mainloop_IsRunning :: bool
  mainloop_IsDone :: bool
  sync_wakeup_event_Wait :: "fifo_state \<Rightarrow> fifo_state"

definition add_event :: "fifo_event \<Rightarrow> fifo_state \<Rightarrow> fifo_state" where
  "add_event e st = st\<lparr>events := events st @ [e]\<rparr>"

subsection \<open>ResetVideoBuffer and the aux FIFO\<close>

definition ResetVideoBuffer :: "fifo_state \<Rightarrow> fifo_state" where
  "ResetVideoBuffer st =
     st\<lparr>s_video_buffer_read_ptr := 0,
        s_video_buffer_write_ptr := 0,
        s_video_buffer_seen_ptr := 0,
        s_video_buffer_pp_read_ptr := 0,
        s_fifo_aux_write_ptr := 0,
        s_fifo_aux_read_ptr := 0\<rparr>"

text \<open>\<open>PopFifoAuxBuffer\<close> returns the old read pointer and the state with the pointer advanced.\<close>

definition PopFifoAuxBuffer :: "u64 \<Rightarrow> fifo_state \<Rightarrow> u64 \<times> fifo_state" where
  "PopFifoAuxBuffer sz st =
     (let ret = s_fifo_aux_read_ptr st
      in (ret, st\<lparr>s_fifo_aux_read_ptr := s_fifo_aux_read_ptr st + sz\<rparr>))"

subsection \<open>Copying into the video buffer\<close>

text \<open>\<open>memmove (dst, src, n)\<close> inside one buffer: the source bytes are read before any is written.\<close>

definition memmove :: "(nat \<Rightarrow> u8) \<Rightarrow> nat \<Rightarrow> nat \<Rightarrow> nat \<Rightarrow> (nat \<Rightarrow> u8)" where
  "memmove buf dst src n = (\<lambda>i. if dst \<le> i \<and> i < dst + n then buf (src + (i - dst)) else buf i)"

definition CopyFromEmu :: "(u32 \<Rightarrow> nat \<Rightarrow> u8) \<Rightarrow> (nat \<Rightarrow> u8) \<Rightarrow> nat \<Rightarrow> u32 \<Rightarrow> nat \<Rightarrow> (nat \<Rightarrow> u8)" where
  "CopyFromEmu mem buf dst readPtr n =
     (\<lambda>i. if dst \<le> i \<and> i < dst + n then mem readPtr (i - dst) else buf i)"

definition ReadDataFromFifo :: "fifo_env \<Rightarrow> u32 \<Rightarrow> fifo_state \<Rightarrow> fifo_state" where
  "ReadDataFromFifo env readPtr st =
     (let copy = (\<lambda>s. s\<lparr>s_video_buffer :=
                           CopyFromEmu (guest_memory env) (s_video_buffer s)
                             (unat (s_video_buffer_write_ptr s)) readPtr (unat (GATHER_PIPE_SIZE :: u64)),
                        s_video_buffer_write_ptr := s_video_buffer_write_ptr s + GATHER_PIPE_SIZE\<rparr>)
      in if GATHER_PIPE_SIZE > FIFO_SIZE - s_video_buffer_write_ptr st
         then (let existing_len = s_video_buffer_write_ptr st - s_video_buffer_read_ptr st
               in if GATHER_PIPE_SIZE > FIFO_SIZE - existing_len
                  then add_event (PanicAlert_FifoOutOfBounds existing_len) st
                  else copy (st\<lparr>s_video_buffer :=
                                   memmove (s_video_buffer st) 0 (unat (s_video_buffer_read_ptr st))
                                     (unat existing_len),
                                 s_video_buffer_write_ptr := existing_len,
                                 s_video_buffer_read_ptr := 0\<rparr>))
         else copy st)"

subsection \<open>SyncGPU and the deterministic reader\<close>

definition SyncGPU :: "fifo_env \<Rightarrow> bool \<Rightarrow> fifo_state \<Rightarrow> fifo_state" where
  "SyncGPU env may_move_read_ptr st =
     (if s_use_deterministic_gpu_thread st
      then (let st1 = mainloop_Wait env st
            in if \<not> mainloop_IsRunning env then st1
               else (let st2 = (if may_move_read_ptr
                                    \<and> s_fifo_aux_write_ptr st1 \<noteq> s_fifo_aux_read_ptr st1
                                 then add_event (PanicAlert_AuxFifoNotSynced
                                        (s_fifo_aux_write_ptr st1) (s_fifo_aux_read_ptr st1)) st1
                                 else st1);
                         st3 = st2\<lparr>s_fifo_aux_data :=
                                      memmove (s_fifo_aux_data st2) 0 (unat (s_fifo_aux_read_ptr st2))
                                        (unat (s_fifo_aux_write_ptr st2 - s_fifo_aux_read_ptr st2)),
                                    s_fifo_aux_write_ptr :=
                                      s_fifo_aux_write_ptr st2 - (s_fifo_aux_read_ptr st2 - 0),
                                    s_fifo_aux_read_ptr := 0\<rparr>
                     in if may_move_read_ptr
                        then (let write_ptr = s_video_buffer_write_ptr st3;
                                  sz = write_ptr - s_video_buffer_pp_read_ptr st3
                              in st3\<lparr>s_video_buffer :=
                                       memmove (s_video_buffer st3) 0
                                         (unat (s_video_buffer_pp_read_ptr st3)) (unat sz),
                                     s_video_buffer_write_ptr := 0 + sz,
                                     s_video_buffer_pp_read_ptr := 0,
                                     s_video_buffer_read_ptr := 0,
                                     s_video_buffer_seen_ptr := 0 + sz\<rparr>)
                        else st3))
      else st)"

definition ReadDataFromFifoOnCPU :: "fifo_env \<Rightarrow> u32 \<Rightarrow> fifo_state \<Rightarrow> fifo_state" where
  "ReadDataFromFifoOnCPU env readPtr st =
     (let finish = (\<lambda>write_ptr s.
            (let buf = CopyFromEmu (guest_memory env) (s_video_buffer s)
                         (unat (s_video_buffer_write_ptr s)) readPtr (unat (GATHER_PIPE_SIZE :: u64))
             in s\<lparr>s_video_buffer := buf,
                  s_video_buffer_pp_read_ptr :=
                    RunFifo_preprocess env buf (s_video_buffer_pp_read_ptr s)
                      (write_ptr + GATHER_PIPE_SIZE),
                  s_video_buffer_write_ptr := write_ptr + GATHER_PIPE_SIZE\<rparr>));
          write_ptr = s_video_buffer_write_ptr st
      in if GATHER_PIPE_SIZE > FIFO_SIZE - write_ptr
         then (let st1 = SyncGPU env True st
               in if \<not> mainloop_IsRunning env then st1
                  else if s_video_buffer_pp_read_ptr st1 \<noteq> s_video_buffer_read_ptr st1
                  then add_event PanicAlert_DesyncedReadPointers st1
                  else (let write_ptr = s_video_buffer_write_ptr st1;
                            existing_len = write_ptr - s_video_buffer_pp_read_ptr st1
                        in if GATHER_PIPE_SIZE > FIFO_SIZE - existing_len
                           then add_event (PanicAlert_FifoOutOfBounds existing_len) st1
                           else finish write_ptr st1))
         else finish write_ptr st)"

subsection \<open>The GPU thread's loop body in deterministic mode\<close>

definition RunGpuLoop_deterministic :: "fifo_env \<Rightarrow> fifo_state \<Rightarrow> fifo_state" where
  "RunGpuLoop_deterministic env st =
     (let seen_ptr = s_video_buffer_seen_ptr st;
          write_ptr = s_video_buffer_write_ptr st
      in if write_ptr > seen_ptr
         then st\<lparr>s_video_buffer_read_ptr :=
                   fst (RunFifo env (s_video_buffer st) (s_video_buffer_read_ptr st) write_ptr),
                 s_video_buffer_seen_ptr := write_ptr\<rparr>
         else st)"

subsection \<open>RunGpu, RunGpuOnCpu and WaitForGpuThread\<close>

definition AtBreakpoint :: "cp_fifo \<Rightarrow> bool" where
  "AtBreakpoint fifo = (bFF_BPEnable fifo \<noteq> 0 \<and> CPReadPointer fifo = CPBreakpoint fifo)"

definition RunGpu :: "fifo_env \<Rightarrow> fifo_state \<Rightarrow> fifo_state" where
  "RunGpu env st =
     (let is_dual_core = IsDualCoreMode env;
          st1 = (if is_dual_core \<and> \<not> s_use_deterministic_gpu_thread st
                 then add_event Mainloop_Wakeup st else st)
      in if \<not> is_dual_core \<or> s_use_deterministic_gpu_thread st1 \<or> s_config_sync_gpu st1
         then (if s_syncing_suspended st1
               then add_event (ScheduleEvent GPU_TIME_SLOT_SIZE) (st1\<lparr>s_syncing_suspended := False\<rparr>)
               else st1)
         else st1)"

text \<open>
  The loop of \<open>RunGpuOnCpu\<close> works on the statics together with the locals \<open>available_ticks\<close> and
  \<open>reset_simd_state\<close>. \<open>available_ticks -= cycles\<close> subtracts a \<open>u32\<close> from an \<open>int\<close>: both are
  converted to unsigned and the difference is taken modulo \<open>2 ^ 32\<close>.
\<close>

definition RunGpuOnCpu_cond :: "fifo_state \<times> s32 \<times> bool \<Rightarrow> bool" where
  "RunGpuOnCpu_cond x =
     (case x of (st, available_ticks, reset_simd_state) \<Rightarrow>
        bFF_GPReadEnable (cp st) \<noteq> 0 \<and> CPReadWriteDistance (cp st) \<noteq> 0
        \<and> \<not> AtBreakpoint (cp st) \<and> 0 \<le>s available_ticks)"

definition advance_read_pointer :: "cp_fifo \<Rightarrow> cp_fifo" where
  "advance_read_pointer fifo =
     (let fifo1 = (if CPReadPointer fifo = CPEnd fifo
                   then fifo\<lparr>CPReadPointer := CPBase fifo\<rparr>
                   else fifo\<lparr>CPReadPointer := CPReadPointer fifo + GATHER_PIPE_SIZE\<rparr>)
      in fifo1\<lparr>CPReadWriteDistance := CPReadWriteDistance fifo1 - GATHER_PIPE_SIZE\<rparr>)"

definition RunGpuOnCpu_body :: "fifo_env \<Rightarrow> fifo_state \<times> s32 \<times> bool \<Rightarrow> fifo_state \<times> s32 \<times> bool" where
  "RunGpuOnCpu_body env x =
     (case x of (st, available_ticks, reset_simd_state) \<Rightarrow>
        (let (st1, available_ticks1, reset_simd_state1) =
               (if s_use_deterministic_gpu_thread st
                then (add_event Mainloop_Wakeup
                        (ReadDataFromFifoOnCPU env (CPReadPointer (cp st)) st),
                      available_ticks, reset_simd_state)
                else (let sta = (if \<not> reset_simd_state
                                 then add_event LoadDefaultSIMDState (add_event SaveSIMDState st)
                                 else st);
                          stb = ReadDataFromFifo env (CPReadPointer (cp sta)) sta;
                          (new_read_ptr, cycles) =
                             RunFifo env (s_video_buffer stb) (s_video_buffer_read_ptr stb)
                               (s_video_buffer_write_ptr stb)
                      in (stb\<lparr>s_video_buffer_read_ptr := new_read_ptr\<rparr>,
                          available_ticks - cycles, True)))
         in (st1\<lparr>cp := advance_read_pointer (cp st1)\<rparr>, available_ticks1, reset_simd_state1)))"

partial_function (option) RunGpuOnCpu_loop ::
  "fifo_env \<Rightarrow> fifo_state \<times> s32 \<times> bool \<Rightarrow> (fifo_state \<times> s32 \<times> bool) option" where
  "RunGpuOnCpu_loop env x =
     (if RunGpuOnCpu_cond x then RunGpuOnCpu_loop env (RunGpuOnCpu_body env x) else Some x)"


text \<open>
  \<open>int (ticks * s_config_sync_gpu_overclock)\<close>: \<open>ticks\<close> is converted to \<open>float\<close>, the product is
  a \<open>float\<close>, and the conversion to \<open>int\<close> may be undefined.
  \<open>std::min (available_ticks, 0)\<close> is \<open>0 < available_ticks ? 0 : available_ticks\<close>.
  \<open>RunGpuOnCpu\<close> is \<open>None\<close> when the loop runs forever.
\<close>

datatype fifo_error = Undefined_float_to_int

definition RunGpuOnCpu ::
  "fifo_env \<Rightarrow> s32 \<Rightarrow> fifo_state \<Rightarrow> (fifo_error + s32 \<times> fifo_state) option" where
  "RunGpuOnCpu env ticks st =
     (case float_to_int (float_mul (host_rounding_mode env)
                           (int_to_float (host_rounding_mode env) (sint ticks))
                           (s_config_sync_gpu_overclock st)) of
        None \<Rightarrow> Some (Inl Undefined_float_to_int)
      | Some product \<Rightarrow>
          (case RunGpuOnCpu_loop env (st, product + s_sync_ticks st, False) of
             None \<Rightarrow> None
           | Some (st1, available_ticks, reset_simd_state) \<Rightarrow>
               (let st2 = add_event SetCPStatusFromGPU st1;
                    st3 = (if reset_simd_state then add_event LoadSIMDState st2 else st2);
                    st4 = st3\<lparr>s_sync_ticks :=
                                (if 0 <s available_ticks then 0 else available_ticks)\<rparr>
                in if 0 \<le>s available_ticks
                   then Some (Inr (- 1, st4))
                   else Some (Inr (- available_ticks + GPU_TIME_SLOT_SIZE, st4)))))"

definition WaitForGpuThread :: "fifo_env \<Rightarrow> s32 \<Rightarrow> fifo_state \<Rightarrow> s32 \<times> fifo_state" where
  "WaitForGpuThread env ticks st =
     (let old = s_sync_ticks st;
          st1 = st\<lparr>s_sync_ticks := old + ticks\<rparr>;
          now = old + ticks
      in if 0 \<le>s old \<and> mainloop_IsDone env then (- 1, st1)
         else (let st2 = (if old <s s_config_sync_gpu_min_distance st1
                             \<and> s_config_sync_gpu_min_distance st1 \<le>s now
                          then RunGpu env st1 else st1)
               in if now <s s_config_sync_gpu_min_distance st2
                  then (GPU_TIME_SLOT_SIZE + s_config_sync_gpu_min_distance st2 - now, st2)
                  else (let st3 = (if s_config_sync_gpu_max_distance st2 \<le>s now
                                   then sync_wakeup_event_Wait env (add_event SyncWakeupEvent_Wait st2)
                                   else st2)
                        in (GPU_TIME_SLOT_SIZE, st3))))"

subsection \<open>The two threads on the atomic pointers\<close>

text \<open>
  \<open>s_video_buffer_write_ptr\<close> and \<open>s_video_buffer_seen_ptr\<close> are \<open>std::atomic\<close> and are read and
  written with the default sequentially consistent order, so an execution of the two threads is
  an interleaving of their loads and stores. A step is one such access (or the GPU thread's
  comparison with what follows it); the GPU thread keeps what it has loaded in the locals
  \<open>seen_ptr\<close> and \<open>write_ptr\<close>, and \<open>decoded\<close> lists the ranges it has handed to the decoder.
\<close>

datatype gpu_step =
    GPU_load_seen
  | GPU_load_write
  | GPU_decide
  | CPU_store_write u64
  | CPU_store_seen u64

record gpu_conf =
  shared :: fifo_state
  l_seen_ptr :: u64
  l_write_ptr :: u64
  decoded :: "(u64 \<times> u64) list"

fun exec_step :: "fifo_env \<Rightarrow> gpu_step \<Rightarrow> gpu_conf \<Rightarrow> gpu_conf" where
  "exec_step env GPU_load_seen c = c\<lparr>l_seen_ptr := s_video_buffer_seen_ptr (shared c)\<rparr>"
| "exec_step env GPU_load_write c = c\<lparr>l_write_ptr := s_video_buffer_write_ptr (shared c)\<rparr>"
| "exec_step env GPU_decide c =
     (if l_write_ptr c > l_seen_ptr c
      then c\<lparr>shared := (shared c)
                 \<lparr>s_video_buffer_read_ptr :=
                    fst (RunFifo env (s_video_buffer (shared c))
                           (s_video_buffer_read_ptr (shared c)) (l_write_ptr c)),
                  s_video_buffer_seen_ptr := l_write_ptr c\<rparr>,
             decoded := decoded c @ [(s_video_buffer_read_ptr (shared c), l_write_ptr c)]\<rparr>
      else c)"
| "exec_step env (CPU_store_write v) c = c\<lparr>shared := (shared c)\<lparr>s_video_buffer_write_ptr := v\<rparr>\<rparr>"
| "exec_step env (CPU_store_seen v) c = c\<lparr>shared := (shared c)\<lparr>s_video_buffer_seen_ptr := v\<rparr>\<rparr>"

definition run_steps :: "fifo_env \<Rightarrow> gpu_step list \<Rightarrow> gpu_conf \<Rightarrow> gpu_conf" where
  "run_steps env tr c = fold (exec_step env) tr c"

text \<open>
  The deterministic branch of the loop body in \<open>RunGpuLoop\<close>, statement by statement, and the
  two atomic stores of \<open>SyncGPU\<close> (with \<open>may_move_read_ptr\<close>), in program order.
\<close>

definition RunGpuLoop_deterministic_steps :: "gpu_step list" where
  "RunGpuLoop_deterministic_steps = [GPU_load_seen, GPU_load_write, GPU_decide]"

definition SyncGPU_stores :: "fifo_state \<Rightarrow> gpu_step list" where
  "SyncGPU_stores st =
     (let write_ptr = s_video_buffer_write_ptr st;
          sz = write_ptr - s_video_buffer_pp_read_ptr st
      in [CPU_store_write (0 + sz), CPU_store_seen (0 + sz)])"

text \<open>
  The order of the loads as the specification words it ("the GPU reads write first, then seen"),
  for comparison with the order in the code.
\<close>

definition write_then_seen_steps :: "gpu_step list" where
  "write_then_seen_steps = [GPU_load_write, GPU_load_seen, GPU_decide]"

section \<open>Core/PowerPC/Jit64/Jit.cpp\<close>

subsection \<open>The BLR stack\<close>

definition STACK_SIZE :: u64 where
  "STACK_SIZE = 2 * 1024 * 1024"

definition SAFE_STACK_SIZE :: u64 where
  "SAFE_STACK_SIZE = 512 * 1024"

definition GUARD_SIZE :: u64 where
  "GUARD_SIZE = 0x10000"

definition GUARD_OFFSET :: u64 where
  "GUARD_OFFSET = STACK_SIZE - SAFE_STACK_SIZE - GUARD_SIZE"

subsection \<open>Emitted host code\<close>

text \<open>
  The translator writes x86-64 instructions through the emitter (Common/x64Emitter, not under
  src). Emitted code is kept as two instruction lists, the near and the far region; a code pointer
  is a region and a position in it. Only the instructions that the functions below emit are
  listed, with the operands they are given; the first argument of an arithmetic instruction is its
  width in bits.
\<close>

datatype asm_routine =
    do_timing
  | dispatcher
  | dispatcher_no_check
  | dispatcher_no_timing_check
  | dispatcher_mispredicted_blr

datatype code_ptr = Near nat | Far nat

datatype jump_target = Routine asm_routine | Code code_ptr | Unresolved

datatype CCFlags = CC_LE | CC_NE | CC_NZ | CC_Z | CC_L

datatype X64Reg = RSCRATCH | RSCRATCH2 | RSP | ABI_PARAM1

datatype ppc_field =
    PPC_pc
  | PPC_npc
  | PPC_downcount
  | PPC_Exceptions
  | PPC_msr
  | PPC_spr_GQR0 nat
  | PPC_gather_pipe_ptr
  | PPC_gather_pipe_base_ptr

datatype profile_field = ticStart | ticStop | ticCounter | downcountCounter | runCount

datatype ExceptionType = PairedQuantize | SpeculativeConstants

datatype host_function =
    UpdateGatherPipe
  | UpdatePerformanceMonitor u32 u32 u32
  | QueryPerformanceCounter
  | CheckExceptions
  | CheckExternalExceptions
  | CompileExceptionCheck ExceptionType
  | GlobalIdle

datatype OpArg =
    R X64Reg
  | Imm8 u8
  | Imm32 u32
  | ImmPtr_profile_data "profile_field option"
  | PPCSTATE ppc_field
  | MDisp_bytes X64Reg int
  | MDisp_offsetof X64Reg profile_field
  | MDisp_offset_between X64Reg profile_field profile_field

datatype x64 =
    MOV int OpArg OpArg
  | ADD int OpArg OpArg
  | SUB int OpArg OpArg
  | CMP int OpArg OpArg
  | CMP_or_TEST int OpArg OpArg
  | PUSH X64Reg
  | POP X64Reg
  | J_CC CCFlags jump_target
  | JMP jump_target
  | CALL jump_target
  | RET
  | ABI_PushRegistersAndAdjustStack
  | ABI_PopRegistersAndAdjustStack
  | ABI_CallFunction host_function
  | Align4

subsection \<open>Blocks and the translator's state\<close>

record LinkData =
  exitAddress :: u32
  linkStatus :: bool
  call :: bool
  exitPtrs :: code_ptr

record JitBlock =
  effectiveAddress :: u32
  checkedEntry :: code_ptr
  normalEntry :: code_ptr
  linkData :: "LinkData list"
  near_begin :: code_ptr
  near_end :: code_ptr
  far_begin :: code_ptr
  far_end :: code_ptr

text \<open>
  The block cache (\<open>JitBaseBlockCache\<close>, not under src): the blocks it holds and its two lists of
  host-code ranges waiting to be handed back to the free-range sets.
\<close>

record block_cache =
  bc_blocks :: "JitBlock list"
  ranges_to_free_near :: "(nat \<times> nat) list"
  ranges_to_free_far :: "(nat \<times> nat) list"

text \<open>
  Calls that leave Jit.cpp are recorded as events, in the order they are made.
\<close>

datatype jit_event =
    ClearCache_called
  | WARN_flushing_trampoline_code_cache
  | WARN_flushing_code_caches
  | WARN_BLR_cache_disabled
  | WARN_ISI_exception u32
  | PanicAlert_no_code_space
  | UnWriteProtectMemory u64 u64
  | InvalidateICache u32 u32 bool
  | ForceExceptionCheck nat
  | resetstkoflw
  | CheckExceptions_called

text \<open>
  The members of \<open>Jit64\<close> and of its \<open>js\<close> and \<open>jo\<close> records that the modelled functions use,
  the two free-range sets (address ranges \<open>(from, to)\<close>), and the parts of the guest state
  (\<open>MMCR0\<close>, \<open>MMCR1\<close>, the GQRs, \<open>NPC\<close>, \<open>Exceptions\<close>) read or written while translating.
  What code generation writes to, the two code
  regions of the emitter and the block under construction (\<open>js.curBlock\<close>), is kept apart in
  \<open>codegen\<close>.
\<close>

record codegen =
  near_code :: "x64 list"
  far_code :: "x64 list"
  in_far_code :: bool
  curBlock :: JitBlock

record jit64 =
  jo_optimizeGatherPipe :: bool
  jo_profile_blocks :: bool
  jo_enableBlocklink :: bool
  js_blockStart :: u32
  js_downcountAmount :: u32
  js_fifoBytesSinceCheck :: s32
  js_numLoadStoreInst :: u32
  js_numFloatingPointInst :: u32
  js_constantGqr :: "nat \<Rightarrow> u32"
  js_constantGqrValid :: u8
  js_pairedQuantizeAddresses :: "u32 set"
  m_enable_blr_optimization :: bool
  m_cleanup_after_stackfault :: bool
  m_stack :: u64
  m_enable_debugging :: bool
  m_free_ranges_near :: "(nat \<times> nat) list"
  m_free_ranges_far :: "(nat \<times> nat) list"
  blocks :: block_cache
  trampolines_almost_full :: bool
  MMCR0_Hex :: u32
  MMCR1_Hex :: u32
  GQR :: "nat \<Rightarrow> u32"
  NPC :: u32
  ppc_Exceptions :: u32
  jit_events :: "jit_event list"

definition jit_event :: "jit_event \<Rightarrow> jit64 \<Rightarrow> jit64" where
  "jit_event e s = s\<lparr>jit_events := jit_events s @ [e]\<rparr>"

subsection \<open>The emitter\<close>

definition emit :: "x64 \<Rightarrow> codegen \<Rightarrow> codegen" where
  "emit i s = (if in_far_code s then s\<lparr>far_code := far_code s @ [i]\<rparr>
               else s\<lparr>near_code := near_code s @ [i]\<rparr>)"

definition emits :: "x64 list \<Rightarrow> codegen \<Rightarrow> codegen" where
  "emits is s = fold emit is s"

definition GetCodePtr :: "codegen \<Rightarrow> code_ptr" where
  "GetCodePtr s = (if in_far_code s then Far (length (far_code s)) else Near (length (near_code s)))"

definition SwitchToFarCode :: "codegen \<Rightarrow> codegen" where
  "SwitchToFarCode s = s\<lparr>in_far_code := True\<rparr>"

definition SwitchToNearCode :: "codegen \<Rightarrow> codegen" where
  "SwitchToNearCode s = s\<lparr>in_far_code := False\<rparr>"

text \<open>
  A \<open>FixupBranch\<close> is the position of a jump emitted without a target; \<open>SetJumpTarget\<close> writes
  the current code pointer into that jump.
\<close>

definition emit_fixup :: "x64 \<Rightarrow> codegen \<Rightarrow> code_ptr \<times> codegen" where
  "emit_fixup i s = (GetCodePtr s, emit i s)"

fun patch_target :: "code_ptr \<Rightarrow> x64 \<Rightarrow> x64" where
  "patch_target t (J_CC cc _) = J_CC cc (Code t)"
| "patch_target t (JMP _) = JMP (Code t)"
| "patch_target t (CALL _) = CALL (Code t)"
| "patch_target t i = i"

fun SetJumpTarget :: "code_ptr \<Rightarrow> codegen \<Rightarrow> codegen" where
  "SetJumpTarget (Near k) s =
     (if k < length (near_code s)
      then s\<lparr>near_code := (near_code s)[k := patch_target (GetCodePtr s) (near_code s ! k)]\<rparr>
      else s)"
| "SetJumpTarget (Far k) s =
     (if k < length (far_code s)
      then s\<lparr>far_code := (far_code s)[k := patch_target (GetCodePtr s) (far_code s ! k)]\<rparr>
      else s)"

text \<open>
  Modelled from the spec: \<open>AlignCode4\<close> belongs to the emitter, which is not under src; the
  specification says "Align entry to 4 bytes". Positions here count instructions, not bytes, so
  the padding is one pseudo-instruction and the aligned pointer is the position after it.
\<close>

definition AlignCode4 :: "codegen \<Rightarrow> code_ptr \<times> codegen" where
  "AlignCode4 s = (let s1 = emit Align4 s in (GetCodePtr s1, s1))"

subsection \<open>Exits\<close>

text \<open>
  The functions that write exits read the members of \<open>Jit64\<close> (first argument) and write to the
  emitter and to the link data of the block under construction.
\<close>

definition Cleanup :: "jit64 \<Rightarrow> codegen \<Rightarrow> bool \<times> codegen" where
  "Cleanup j g =
     (let (did1, g1) =
            (if jo_optimizeGatherPipe j \<and> 0 <s js_fifoBytesSinceCheck j
             then (let ga = emits [MOV 64 (R RSCRATCH) (PPCSTATE PPC_gather_pipe_ptr),
                                   SUB 64 (R RSCRATCH) (PPCSTATE PPC_gather_pipe_base_ptr),
                                   CMP 64 (R RSCRATCH) (Imm32 GATHER_PIPE_SIZE)] g;
                       (exit, gb) = emit_fixup (J_CC CC_L Unresolved) ga;
                       gc = emits [ABI_PushRegistersAndAdjustStack,
                                   ABI_CallFunction UpdateGatherPipe,
                                   ABI_PopRegistersAndAdjustStack] gb
                   in (True, SetJumpTarget exit gc))
             else (False, g));
          (did2, g2) =
            (if MMCR0_Hex j \<noteq> 0 \<or> MMCR1_Hex j \<noteq> 0
             then (True, emits [ABI_PushRegistersAndAdjustStack,
                                ABI_CallFunction (UpdatePerformanceMonitor (js_downcountAmount j)
                                  (js_numLoadStoreInst j) (js_numFloatingPointInst j)),
                                ABI_PopRegistersAndAdjustStack] g1)
             else (did1, g1));
          g3 = (if jo_profile_blocks j
                then emits [ABI_PushRegistersAndAdjustStack,
                            MOV 64 (R ABI_PARAM1) (ImmPtr_profile_data (Some ticStop)),
                            ABI_CallFunction QueryPerformanceCounter,
                            MOV 64 (R RSCRATCH2) (ImmPtr_profile_data None),
                            MOV 64 (R RSCRATCH) (MDisp_offsetof RSCRATCH2 ticStop),
                            SUB 64 (R RSCRATCH) (MDisp_offsetof RSCRATCH2 ticStart),
                            ADD 64 (R RSCRATCH) (MDisp_offsetof RSCRATCH2 ticCounter),
                            ADD 64 (MDisp_offsetof RSCRATCH2 downcountCounter)
                              (Imm32 (js_downcountAmount j)),
                            MOV 64 (MDisp_offsetof RSCRATCH2 ticCounter) (R RSCRATCH),
                            ABI_PopRegistersAndAdjustStack] g2
                else g2)
      in (did2, g3))"

definition add_linkData :: "LinkData \<Rightarrow> codegen \<Rightarrow> codegen" where
  "add_linkData l g = g\<lparr>curBlock := (curBlock g)\<lparr>linkData := linkData (curBlock g) @ [l]\<rparr>\<rparr>"

text \<open>
  \<open>JustWriteExit\<close> calls itself once when \<open>bl\<close> is set, with \<open>bl = false\<close>; the inner call is
  \<open>JustWriteExit_plain\<close>. The inner call pushes its link record first.
\<close>

definition JustWriteExit_plain :: "u32 \<Rightarrow> codegen \<Rightarrow> codegen" where
  "JustWriteExit_plain destination g =
     (let g1 = emits [MOV 32 (PPCSTATE PPC_pc) (Imm32 destination),
                      J_CC CC_LE (Routine do_timing)] g;
          l = \<lparr>exitAddress = destination, linkStatus = False, call = False,
               exitPtrs = GetCodePtr g1\<rparr>;
          g2 = emit (JMP (Routine dispatcher_no_timing_check)) g1
      in add_linkData l g2)"

definition JustWriteExit :: "u32 \<Rightarrow> bool \<Rightarrow> u32 \<Rightarrow> codegen \<Rightarrow> codegen" where
  "JustWriteExit destination bl after g =
     (if bl
      then (let g1 = emit (MOV 32 (PPCSTATE PPC_pc) (Imm32 destination)) g;
                (do_timing_fixup, g2) = emit_fixup (J_CC CC_LE Unresolved) g1;
                g3 = SetJumpTarget do_timing_fixup (SwitchToFarCode g2);
                g4 = emit (CALL (Routine do_timing)) g3;
                (after_fixup, g5) = emit_fixup (JMP Unresolved) g4;
                g6 = SwitchToNearCode g5;
                l = \<lparr>exitAddress = destination, linkStatus = False, call = True,
                     exitPtrs = GetCodePtr g6\<rparr>;
                g7 = emit (CALL (Routine dispatcher_no_timing_check)) g6;
                g8 = emit (POP RSCRATCH) (SetJumpTarget after_fixup g7);
                g9 = JustWriteExit_plain after g8
            in add_linkData l g9)
      else JustWriteExit_plain destination g)"

definition WriteExit :: "jit64 \<Rightarrow> u32 \<Rightarrow> bool \<Rightarrow> u32 \<Rightarrow> codegen \<Rightarrow> codegen" where
  "WriteExit j destination bl after g =
     (let bl = (if \<not> m_enable_blr_optimization j then False else bl);
          g1 = snd (Cleanup j g);
          g2 = (if bl then emits [MOV 32 (R RSCRATCH2) (Imm32 after), PUSH RSCRATCH2] g1 else g1);
          g3 = emit (SUB 32 (PPCSTATE PPC_downcount) (Imm32 (js_downcountAmount j))) g2
      in JustWriteExit destination bl after g3)"

definition WriteExitDestInRSCRATCH :: "jit64 \<Rightarrow> bool \<Rightarrow> u32 \<Rightarrow> codegen \<Rightarrow> codegen" where
  "WriteExitDestInRSCRATCH j bl after g =
     (let bl = (if \<not> m_enable_blr_optimization j then False else bl);
          g1 = emit (MOV 32 (PPCSTATE PPC_pc) (R RSCRATCH)) g;
          g2 = snd (Cleanup j g1);
          g3 = (if bl then emits [MOV 32 (R RSCRATCH2) (Imm32 after), PUSH RSCRATCH2] g2 else g2);
          g4 = emit (SUB 32 (PPCSTATE PPC_downcount) (Imm32 (js_downcountAmount j))) g3
      in if bl
         then JustWriteExit after False 0
                (emits [CALL (Routine dispatcher), POP RSCRATCH] g4)
         else emit (JMP (Routine dispatcher)) g4)"

text \<open>The header gives \<open>WriteExitDestInRSCRATCH\<close> the defaults \<open>bl = false\<close>, \<open>after = 0\<close>.\<close>

definition WriteBLRExit :: "jit64 \<Rightarrow> codegen \<Rightarrow> codegen" where
  "WriteBLRExit j g =
     (if \<not> m_enable_blr_optimization j
      then WriteExitDestInRSCRATCH j False 0 g
      else (let g1 = emit (MOV 32 (PPCSTATE PPC_pc) (R RSCRATCH)) g;
                (disturbed, g2) = Cleanup j g1;
                g3 = (if disturbed then emit (MOV 32 (R RSCRATCH) (PPCSTATE PPC_pc)) g2 else g2)
            in emits [MOV 32 (R RSCRATCH2) (Imm32 (js_downcountAmount j)),
                      CMP 64 (R RSCRATCH) (MDisp_bytes RSP 8),
                      J_CC CC_NE (Routine dispatcher_mispredicted_blr),
                      SUB 32 (PPCSTATE PPC_downcount) (R RSCRATCH2),
                      RET] g3))"

definition WriteRfiExitDestInRSCRATCH :: "jit64 \<Rightarrow> codegen \<Rightarrow> codegen" where
  "WriteRfiExitDestInRSCRATCH j g =
     (let g1 = emits [MOV 32 (PPCSTATE PPC_pc) (R RSCRATCH),
                      MOV 32 (PPCSTATE PPC_npc) (R RSCRATCH)] g;
          g2 = snd (Cleanup j g1)
      in emits [ABI_PushRegistersAndAdjustStack,
                ABI_CallFunction CheckExceptions,
                ABI_PopRegistersAndAdjustStack,
                SUB 32 (PPCSTATE PPC_downcount) (Imm32 (js_downcountAmount j)),
                JMP (Routine dispatcher)] g2)"

definition WriteExceptionExit :: "jit64 \<Rightarrow> codegen \<Rightarrow> codegen" where
  "WriteExceptionExit j g =
     (let g1 = snd (Cleanup j g)
      in emits [MOV 32 (R RSCRATCH) (PPCSTATE PPC_pc),
                MOV 32 (PPCSTATE PPC_npc) (R RSCRATCH),
                ABI_PushRegistersAndAdjustStack,
                ABI_CallFunction CheckExceptions,
                ABI_PopRegistersAndAdjustStack,
                SUB 32 (PPCSTATE PPC_downcount) (Imm32 (js_downcountAmount j)),
                JMP (Routine dispatcher)] g1)"

definition WriteExternalExceptionExit :: "jit64 \<Rightarrow> codegen \<Rightarrow> codegen" where
  "WriteExternalExceptionExit j g =
     (let g1 = snd (Cleanup j g)
      in emits [MOV 32 (R RSCRATCH) (PPCSTATE PPC_pc),
                MOV 32 (PPCSTATE PPC_npc) (R RSCRATCH),
                ABI_PushRegistersAndAdjustStack,
                ABI_CallFunction CheckExternalExceptions,
                ABI_PopRegistersAndAdjustStack,
                SUB 32 (PPCSTATE PPC_downcount) (Imm32 (js_downcountAmount j)),
                JMP (Routine dispatcher)] g1)"

definition WriteIdleExit :: "jit64 \<Rightarrow> u32 \<Rightarrow> codegen \<Rightarrow> codegen" where
  "WriteIdleExit j destination g =
     WriteExceptionExit j
       (emits [ABI_PushRegistersAndAdjustStack,
               ABI_CallFunction GlobalIdle,
               ABI_PopRegistersAndAdjustStack,
               MOV 32 (PPCSTATE PPC_pc) (Imm32 destination)] g)"

subsection \<open>Paths through emitted code\<close>

text \<open>
  To say what an exit does to \<open>PPCState.downcount\<close>, emitted code is walked along every path,
  both ways at each conditional jump. The walk keeps the constant that \<open>RSCRATCH2\<close> is known to
  hold, if any, and the list of amounts written to \<open>downcount\<close> so far (\<open>None\<close> for an amount the
  walk does not know). A path ends where control leaves the emitted code: at a jump or a call to
  an assembly routine, or at a \<open>RET\<close>. After a call the walk goes on behind it, where the callee
  will return to, with \<open>RSCRATCH2\<close> unknown.
\<close>

datatype leave =
    Leave_routine asm_routine
  | Leave_ret
  | Fall_through code_ptr
  | Unresolved_jump
  | Out_of_fuel

record sym =
  rscratch2 :: "u32 option"
  downcount_subs :: "u32 option list"

fun fetch :: "x64 list \<times> x64 list \<Rightarrow> code_ptr \<Rightarrow> x64 option" where
  "fetch (near, far) (Near k) = (if k < length near then Some (near ! k) else None)"
| "fetch (near, far) (Far k) = (if k < length far then Some (far ! k) else None)"

fun next_ptr :: "code_ptr \<Rightarrow> code_ptr" where
  "next_ptr (Near k) = Near (k + 1)"
| "next_ptr (Far k) = Far (k + 1)"

definition sub_amount :: "OpArg \<Rightarrow> sym \<Rightarrow> u32 option" where
  "sub_amount src st =
     (case src of Imm32 v \<Rightarrow> Some v
      | R r \<Rightarrow> (case r of RSCRATCH2 \<Rightarrow> rscratch2 st | _ \<Rightarrow> None)
      | _ \<Rightarrow> None)"

definition write_to :: "OpArg \<Rightarrow> u32 option \<Rightarrow> sym \<Rightarrow> sym" where
  "write_to dst v st =
     (case dst of
        PPCSTATE f \<Rightarrow>
          (case f of PPC_downcount \<Rightarrow> st\<lparr>downcount_subs := downcount_subs st @ [None]\<rparr> | _ \<Rightarrow> st)
      | R r \<Rightarrow> (case r of RSCRATCH2 \<Rightarrow> st\<lparr>rscratch2 := v\<rparr> | _ \<Rightarrow> st)
      | _ \<Rightarrow> st)"

definition effect :: "x64 \<Rightarrow> sym \<Rightarrow> sym" where
  "effect i st =
     (case i of
        SUB n dst src \<Rightarrow>
          (case dst of
             PPCSTATE f \<Rightarrow>
               (case f of
                  PPC_downcount \<Rightarrow> st\<lparr>downcount_subs := downcount_subs st @ [sub_amount src st]\<rparr>
                | _ \<Rightarrow> st)
           | _ \<Rightarrow> write_to dst None st)
      | MOV n dst src \<Rightarrow> write_to dst (case src of Imm32 v \<Rightarrow> Some v | _ \<Rightarrow> None) st
      | ADD n dst src \<Rightarrow> write_to dst None st
      | POP r \<Rightarrow> write_to (R r) None st
      | ABI_CallFunction f \<Rightarrow> st\<lparr>rscratch2 := None\<rparr>
      | _ \<Rightarrow> st)"

fun paths :: "nat \<Rightarrow> x64 list \<times> x64 list \<Rightarrow> code_ptr \<Rightarrow> sym \<Rightarrow> (leave \<times> sym) list" where
  "paths 0 code p st = [(Out_of_fuel, st)]"
| "paths (Suc n) code p st =
     (case fetch code p of
        None \<Rightarrow> [(Fall_through p, st)]
      | Some i \<Rightarrow>
          (case i of
             J_CC cc t \<Rightarrow>
               (case t of
                  Routine r \<Rightarrow> [(Leave_routine r, st)]
                | Code q \<Rightarrow> paths n code q st
                | Unresolved \<Rightarrow> [(Unresolved_jump, st)])
               @ paths n code (next_ptr p) st
           | JMP t \<Rightarrow>
               (case t of
                  Routine r \<Rightarrow> [(Leave_routine r, st)]
                | Code q \<Rightarrow> paths n code q st
                | Unresolved \<Rightarrow> [(Unresolved_jump, st)])
           | CALL t \<Rightarrow>
               (case t of
                  Routine r \<Rightarrow> [(Leave_routine r, st)]
                | Code q \<Rightarrow> paths n code q st
                | Unresolved \<Rightarrow> [(Unresolved_jump, st)])
               @ paths n code (next_ptr p) (st\<lparr>rscratch2 := None\<rparr>)
           | RET \<Rightarrow> [(Leave_ret, st)]
           | _ \<Rightarrow> paths n code (next_ptr p) (effect i st)))"

text \<open>The paths through whatever an emitting function \<open>w\<close> appends, entered where it starts.\<close>


definition exit_paths :: "(codegen \<Rightarrow> codegen) \<Rightarrow> codegen \<Rightarrow> (leave \<times> sym) list" where
  "exit_paths w g =
     paths 64 (near_code (w g), far_code (w g)) (GetCodePtr g)
       \<lparr>rscratch2 = None, downcount_subs = []\<rparr>"

text \<open>
  \<open>subtracts_once c ps\<close>: every path in \<open>ps\<close> leaves the emitted code (to a routine or by \<open>RET\<close>)
  having subtracted exactly \<open>c\<close> from \<open>downcount\<close>, exactly once.
\<close>

definition leaves_block :: "leave \<Rightarrow> bool" where
  "leaves_block l = (case l of Leave_routine r \<Rightarrow> True | Leave_ret \<Rightarrow> True | _ \<Rightarrow> False)"

definition subtracted_once :: "u32 \<Rightarrow> leave \<times> sym \<Rightarrow> bool" where
  "subtracted_once c x = (leaves_block (fst x) \<and> downcount_subs (snd x) = [Some c])"

definition subtracts_once :: "u32 \<Rightarrow> (leave \<times> sym) list \<Rightarrow> bool" where
  "subtracts_once c ps = (ps \<noteq> [] \<and> list_all (subtracted_once c) ps)"

text \<open>All that \<open>Cleanup\<close> appends, as one list; \<open>p\<close> is the code pointer it starts at.\<close>

fun ptr_add :: "code_ptr \<Rightarrow> nat \<Rightarrow> code_ptr" where
  "ptr_add (Near k) n = Near (k + n)"
| "ptr_add (Far k) n = Far (k + n)"

definition cleanup_code :: "jit64 \<Rightarrow> code_ptr \<Rightarrow> x64 list" where
  "cleanup_code j p =
     (if jo_optimizeGatherPipe j \<and> 0 <s js_fifoBytesSinceCheck j
      then [MOV 64 (R RSCRATCH) (PPCSTATE PPC_gather_pipe_ptr),
            SUB 64 (R RSCRATCH) (PPCSTATE PPC_gather_pipe_base_ptr),
            CMP 64 (R RSCRATCH) (Imm32 GATHER_PIPE_SIZE),
            J_CC CC_L (Code (ptr_add p 7)),
            ABI_PushRegistersAndAdjustStack,
            ABI_CallFunction UpdateGatherPipe,
            ABI_PopRegistersAndAdjustStack]
      else [])
     @ (if MMCR0_Hex j \<noteq> 0 \<or> MMCR1_Hex j \<noteq> 0
        then [ABI_PushRegistersAndAdjustStack,
              ABI_CallFunction (UpdatePerformanceMonitor (js_downcountAmount j)
                (js_numLoadStoreInst j) (js_numFloatingPointInst j)),
              ABI_PopRegistersAndAdjustStack]
        else [])
     @ (if jo_profile_blocks j
        then [ABI_PushRegistersAndAdjustStack,
              MOV 64 (R ABI_PARAM1) (ImmPtr_profile_data (Some ticStop)),
              ABI_CallFunction QueryPerformanceCounter,
              MOV 64 (R RSCRATCH2) (ImmPtr_profile_data None),
              MOV 64 (R RSCRATCH) (MDisp_offsetof RSCRATCH2 ticStop),
              SUB 64 (R RSCRATCH) (MDisp_offsetof RSCRATCH2 ticStart),
              ADD 64 (R RSCRATCH) (MDisp_offsetof RSCRATCH2 ticCounter),
              ADD 64 (MDisp_offsetof RSCRATCH2 downcountCounter) (Imm32 (js_downcountAmount j)),
              MOV 64 (MDisp_offsetof RSCRATCH2 ticCounter) (R RSCRATCH),
              ABI_PopRegistersAndAdjustStack]
        else [])"

text \<open>
  What a path out of \<open>WriteBLRExit\<close> looks like when the BLR optimization is on: either the
  \<open>RET\<close>, after one subtraction of \<open>c\<close>, or the jump to \<open>dispatcher_mispredicted_blr\<close>, before any
  subtraction, with \<open>c\<close> in \<open>RSCRATCH2\<close>.
\<close>

definition blr_exit :: "u32 \<Rightarrow> leave \<times> sym \<Rightarrow> bool" where
  "blr_exit c x =
     ((fst x = Leave_ret \<and> downcount_subs (snd x) = [Some c])
      \<or> (fst x = Leave_routine dispatcher_mispredicted_blr \<and> downcount_subs (snd x) = []
          \<and> rscratch2 (snd x) = Some c))"

text \<open>\<open>known i\<close> holds for an instruction whose kind is known, whatever its operands.\<close>

fun known :: "x64 \<Rightarrow> bool" where
  "known (MOV b d s) = True"
| "known (ADD b d s) = True"
| "known (SUB b d s) = True"
| "known (CMP b d s) = True"
| "known (CMP_or_TEST b d s) = True"
| "known (PUSH r) = True"
| "known (POP r) = True"
| "known (J_CC c t) = True"
| "known (JMP t) = True"
| "known (CALL t) = True"
| "known RET = True"
| "known ABI_PushRegistersAndAdjustStack = True"
| "known ABI_PopRegistersAndAdjustStack = True"
| "known (ABI_CallFunction f) = True"
| "known Align4 = True"

subsection \<open>The start of DoJit\<close>

text \<open>The two GQR bit sets that the analyzer leaves in \<open>code_block\<close>.\<close>

record CodeBlock =
  m_gqr_used :: u8
  m_gqr_modified :: u8

definition ComputeStaticGQRs :: "CodeBlock \<Rightarrow> u8" where
  "ComputeStaticGQRs cb = m_gqr_used cb AND NOT (m_gqr_modified cb)"

text \<open>
  \<open>BitSet8\<close> is declared in Common/BitSet.h, which is not under src: a \<open>for\<close> over a bit set
  visits the indices of its set bits, lowest first.
\<close>

definition BitSet8_elements :: "u8 \<Rightarrow> nat list" where
  "BitSet8_elements w = filter (bit w) [0..<8]"

text \<open>One turn of the loop \<open>for (int gqr : gqr_static)\<close>.\<close>

definition gqr_check :: "code_ptr \<Rightarrow> nat \<Rightarrow> jit64 \<times> codegen \<Rightarrow> jit64 \<times> codegen" where
  "gqr_check target gqr x =
     (case x of (j, g) \<Rightarrow>
        (let v = GQR j gqr;
             j1 = j\<lparr>js_constantGqr := (js_constantGqr j)(gqr := v)\<rparr>
         in (j1, emits [CMP_or_TEST 32 (PPCSTATE (PPC_spr_GQR0 gqr)) (Imm32 v),
                        J_CC CC_NZ (Code target)] g)))"

text \<open>
  \<open>DoJit\<close> from its first line to the end of the GQR block, for a release build
  (\<open>ImHereDebug\<close> is the constant \<open>false\<close>; none of \<open>_DEBUG\<close>, \<open>DEBUGFAST\<close>, \<open>NAN_CHECK\<close> defined).
  The register caches, which \<open>gpr.Start\<close> and \<open>fpr.Start\<close> reset, are not part of the state here.
\<close>

definition DoJit_prologue :: "u32 \<Rightarrow> CodeBlock \<Rightarrow> jit64 \<times> codegen \<Rightarrow> jit64 \<times> codegen" where
  "DoJit_prologue em_address code_block x =
     (case x of (j, g) \<Rightarrow>
        (let j1 = j\<lparr>js_blockStart := em_address, js_fifoBytesSinceCheck := 0,
                     js_numLoadStoreInst := 0, js_numFloatingPointInst := 0\<rparr>;
             (start, g1) = AlignCode4 g;
             g2 = g1\<lparr>curBlock := (curBlock g1)\<lparr>checkedEntry := start, normalEntry := start\<rparr>\<rparr>;
             g3 = (if jo_profile_blocks j1
                   then emits [MOV 64 (R ABI_PARAM1) (ImmPtr_profile_data (Some ticStart)),
                               ADD 64 (MDisp_offset_between ABI_PARAM1 runCount ticStart) (Imm8 1),
                               ABI_CallFunction QueryPerformanceCounter] g2
                   else g2);
             j2 = j1\<lparr>js_downcountAmount := 0, js_constantGqrValid := 0\<rparr>
         in if js_blockStart j2 \<notin> js_pairedQuantizeAddresses j2
            then (let gqr_static = ComputeStaticGQRs code_block
                  in if gqr_static \<noteq> 0
                     then (let g4 = SwitchToFarCode g3;
                               target = GetCodePtr g4;
                               g5 = emits [MOV 32 (PPCSTATE PPC_pc) (Imm32 (js_blockStart j2)),
                                           ABI_PushRegistersAndAdjustStack,
                                           ABI_CallFunction (CompileExceptionCheck PairedQuantize),
                                           ABI_PopRegistersAndAdjustStack,
                                           JMP (Routine dispatcher_no_check)] g4;
                               g6 = SwitchToNearCode g5;
                               (j3, g7) = fold (gqr_check target) (BitSet8_elements gqr_static) (j2, g6)
                           in (j3\<lparr>js_constantGqrValid := gqr_static\<rparr>, g7))
                     else (j2, g3))
            else (j2, g3)))"

text \<open>Names for the three pieces of code the start of \<open>DoJit\<close> can emit.\<close>

definition profile_prologue :: "jit64 \<Rightarrow> x64 list" where
  "profile_prologue j =
     (if jo_profile_blocks j
      then [MOV 64 (R ABI_PARAM1) (ImmPtr_profile_data (Some ticStart)),
            ADD 64 (MDisp_offset_between ABI_PARAM1 runCount ticStart) (Imm8 1),
            ABI_CallFunction QueryPerformanceCounter]
      else [])"

definition gqr_checks :: "jit64 \<Rightarrow> code_ptr \<Rightarrow> nat list \<Rightarrow> x64 list" where
  "gqr_checks j target gs =
     concat (map (\<lambda>gqr. [CMP_or_TEST 32 (PPCSTATE (PPC_spr_GQR0 gqr)) (Imm32 (GQR j gqr)),
                          J_CC CC_NZ (Code target)]) gs)"

definition gqr_bail_stub :: "u32 \<Rightarrow> x64 list" where
  "gqr_bail_stub blockStart =
     [MOV 32 (PPCSTATE PPC_pc) (Imm32 blockStart),
      ABI_PushRegistersAndAdjustStack,
      ABI_CallFunction (CompileExceptionCheck PairedQuantize),
      ABI_PopRegistersAndAdjustStack,
      JMP (Routine dispatcher_no_check)]"

subsection \<open>What Jit.cpp calls but does not define\<close>

text \<open>
  Build and run-time configuration (\<open>_WIN32\<close>, \<open>bJITNoBlockCache\<close>, \<open>bJITNoBlockLinking\<close>),
  the thread and stepping queries, the two fastmem bases, the result of \<open>BackPatch\<close> (which
  rewrites emitted code and the fault context; only whether it succeeded is kept), the block
  cache's \<open>InvalidateICache\<close>, the analyzer (\<open>Analyze em_address block_size\<close> gives \<open>nextPC\<close> and
  \<open>code_block.m_memory_exception\<close>), the constant \<open>EXCEPTION_ISI\<close>, the outcome of code generation
  (\<open>DoJit_result em_address nextPC near far\<close> is \<open>None\<close> when an emitter ran out of space and
  otherwise the two code pointers reached), the operations of the free-range container
  (\<open>by_size_begin\<close> is \<open>None\<close> when it equals \<open>by_size_end\<close>), and the bounds of the two code
  regions.
\<close>

record jit_env =
  win32 :: bool
  bJITNoBlockCache :: bool
  bJITNoBlockLinking :: bool
  IsCPUThread :: bool
  IsStepping :: bool
  physical_base :: u64
  logical_base :: u64
  BackPatch_result :: "u32 \<Rightarrow> bool"
  InvalidateICache_result :: "u32 \<Rightarrow> u32 \<Rightarrow> bool \<Rightarrow> block_cache \<Rightarrow> block_cache"
  Analyze :: "u32 \<Rightarrow> nat \<Rightarrow> u32 \<times> bool"
  code_buffer_size :: nat
  EXCEPTION_ISI :: u32
  DoJit_result :: "u32 \<Rightarrow> u32 \<Rightarrow> nat \<times> nat \<Rightarrow> nat \<times> nat \<Rightarrow> (nat \<times> nat) option"
  rs_insert :: "nat \<Rightarrow> nat \<Rightarrow> (nat \<times> nat) list \<Rightarrow> (nat \<times> nat) list"
  rs_erase :: "nat \<Rightarrow> nat \<Rightarrow> (nat \<times> nat) list \<Rightarrow> (nat \<times> nat) list"
  rs_by_size_begin :: "(nat \<times> nat) list \<Rightarrow> (nat \<times> nat) option"
  region :: nat
  region_size :: nat
  far_region :: "nat \<times> nat"

subsection \<open>The stack fault\<close>

definition HandleStackFault :: "jit_env \<Rightarrow> jit64 \<Rightarrow> bool \<times> jit64" where
  "HandleStackFault env j =
     (if \<not> m_enable_blr_optimization j \<or> \<not> IsCPUThread env then (False, j)
      else (let j1 = jit_event WARN_BLR_cache_disabled j;
                j2 = j1\<lparr>m_enable_blr_optimization := False\<rparr>;
                j3 = (if \<not> win32 env
                      then jit_event (UnWriteProtectMemory (m_stack j2 + GUARD_OFFSET) GUARD_SIZE) j2
                      else j2);
                j4 = jit_event (InvalidateICache 0 0xffffffff True)
                       (j3\<lparr>blocks := InvalidateICache_result env 0 0xffffffff True (blocks j3)\<rparr>);
                j5 = jit_event (ForceExceptionCheck 0) j4;
                j6 = j5\<lparr>m_cleanup_after_stackfault := True\<rparr>
            in (True, j6)))"

definition HandleFault :: "jit_env \<Rightarrow> u64 \<Rightarrow> jit64 \<Rightarrow> bool \<times> jit64" where
  "HandleFault env access_address j =
     (let stack = m_stack j;
          diff = access_address - stack
      in if m_enable_blr_optimization j \<and> diff \<ge> GUARD_OFFSET \<and> diff < GUARD_OFFSET + GUARD_SIZE
         then HandleStackFault env j
         else (let base_ptr = physical_base env
               in if access_address \<ge> base_ptr \<and> access_address < base_ptr + 0x100010000
                  then (BackPatch_result env (ucast (access_address - base_ptr)), j)
                  else (let logical_base_ptr = logical_base env
                        in if access_address \<ge> logical_base_ptr
                              \<and> access_address < logical_base_ptr + 0x100010000
                           then (BackPatch_result env (ucast (access_address - logical_base_ptr)), j)
                           else (False, j))))"

subsection \<open>ClearCache and Jit\<close>

definition ResetFreeMemoryRanges :: "jit_env \<Rightarrow> jit64 \<Rightarrow> jit64" where
  "ResetFreeMemoryRanges env j =
     j\<lparr>m_free_ranges_near := rs_insert env (region env) (region env + region_size env) [],
       m_free_ranges_far := rs_insert env (fst (far_region env)) (snd (far_region env)) []\<rparr>"

text \<open>
  Modelled from the spec: \<open>blocks.Clear\<close> belongs to the block cache, which is not under src; the
  specification says "clear(): invalidates everything". The code spaces, the constant pool and
  the trampolines are emptied; of these only the trampolines' fill level is kept here.
\<close>

definition ClearCache :: "jit_env \<Rightarrow> jit64 \<Rightarrow> jit64" where
  "ClearCache env j =
     ResetFreeMemoryRanges env
       (jit_event ClearCache_called
          (j\<lparr>blocks := \<lparr>bc_blocks = [], ranges_to_free_near = [], ranges_to_free_far = []\<rparr>,
             trampolines_almost_full := False\<rparr>))"

definition EnableBlockLink :: "jit_env \<Rightarrow> jit64 \<Rightarrow> jit64" where
  "EnableBlockLink env j = j\<lparr>jo_enableBlocklink := \<not> bJITNoBlockLinking env\<rparr>"

definition SetEmitterStateToFreeCodeRegion :: "jit_env \<Rightarrow> jit64 \<Rightarrow> ((nat \<times> nat) \<times> (nat \<times> nat)) option" where
  "SetEmitterStateToFreeCodeRegion env j =
     (case rs_by_size_begin env (m_free_ranges_near j) of
        None \<Rightarrow> None
      | Some free_near \<Rightarrow>
          (case rs_by_size_begin env (m_free_ranges_far j) of
             None \<Rightarrow> None
           | Some free_far \<Rightarrow> Some (free_near, free_far)))"

datatype jit_outcome = Compiled | ISI_raised | Fatal_exit

datatype attempt = Done jit_outcome | No_code_space

text \<open>
  \<open>Jit_attempt\<close> is the body of \<open>Jit (em_address, clear_cache_and_retry_on_failure)\<close> down to the
  test of \<open>clear_cache_and_retry_on_failure\<close>: \<open>Done\<close> where the body returns, \<open>No_code_space\<close>
  where it falls through to that test. Its statements before the analysis are the four
  definitions that follow, in the order of the source.
\<close>

definition Jit_cleanup_after_stackfault :: "jit_env \<Rightarrow> jit64 \<Rightarrow> jit64" where
  "Jit_cleanup_after_stackfault env j =
     (if m_cleanup_after_stackfault j
      then (let ja = (ClearCache env j)\<lparr>m_cleanup_after_stackfault := False\<rparr>
            in if win32 env then jit_event resetstkoflw ja else ja)
      else j)"

definition Jit_flush_trampolines :: "jit_env \<Rightarrow> jit64 \<Rightarrow> jit64" where
  "Jit_flush_trampolines env j =
     (if trampolines_almost_full j \<or> bJITNoBlockCache env
      then ClearCache env
             (if \<not> bJITNoBlockCache env
              then jit_event WARN_flushing_trampoline_code_cache j else j)
      else j)"

definition Jit_drain_freed_ranges :: "jit_env \<Rightarrow> jit64 \<Rightarrow> jit64" where
  "Jit_drain_freed_ranges env j =
     j\<lparr>m_free_ranges_near :=
         fold (\<lambda>range. rs_insert env (fst range) (snd range))
           (ranges_to_free_near (blocks j)) (m_free_ranges_near j),
       m_free_ranges_far :=
         fold (\<lambda>range. rs_insert env (fst range) (snd range))
           (ranges_to_free_far (blocks j)) (m_free_ranges_far j),
       blocks := (blocks j)\<lparr>ranges_to_free_near := [], ranges_to_free_far := []\<rparr>\<rparr>"

definition Jit_debugging :: "jit_env \<Rightarrow> jit64 \<Rightarrow> jit64 \<times> nat" where
  "Jit_debugging env j =
     (let block_size = code_buffer_size env
      in if m_enable_debugging j
         then (let ja = EnableBlockLink env j
               in if \<not> jo_profile_blocks ja \<and> IsStepping env
                  then (ja\<lparr>jo_enableBlocklink := False\<rparr>, 1)
                  else (ja, block_size))
         else (j, block_size))"

text \<open>
  From "Mark the memory regions that this code block uses" to \<open>FinalizeBlock\<close>. The block is
  entered into the cache when it is finalized (modelled from the spec: "allocate_block(pc)
  returns a fresh Block with uninitialized entries", "finalize_block records the block").
\<close>

definition Jit_commit_block ::
  "jit_env \<Rightarrow> u32 \<Rightarrow> nat \<Rightarrow> nat \<Rightarrow> nat \<Rightarrow> nat \<Rightarrow> jit64 \<Rightarrow> jit64" where
  "Jit_commit_block env em_address near_start far_start near_end_ptr far_end_ptr j =
     (let j1 = (if near_start \<noteq> near_end_ptr
                then j\<lparr>m_free_ranges_near :=
                         rs_erase env near_start near_end_ptr (m_free_ranges_near j)\<rparr>
                else j);
          j2 = (if far_start \<noteq> far_end_ptr
                then j1\<lparr>m_free_ranges_far :=
                          rs_erase env far_start far_end_ptr (m_free_ranges_far j1)\<rparr>
                else j1);
          b = \<lparr>effectiveAddress = em_address,
               checkedEntry = Near near_start, normalEntry = Near near_start,
               linkData = [],
               near_begin = Near near_start, near_end = Near near_end_ptr,
               far_begin = Far far_start, far_end = Far far_end_ptr\<rparr>
      in j2\<lparr>blocks := (blocks j2)\<lparr>bc_blocks := bc_blocks (blocks j2) @ [b]\<rparr>\<rparr>)"

definition Jit_attempt :: "jit_env \<Rightarrow> u32 \<Rightarrow> jit64 \<Rightarrow> attempt \<times> jit64" where
  "Jit_attempt env em_address j =
     (let j1 = Jit_cleanup_after_stackfault env j;
          j2 = Jit_flush_trampolines env j1;
          j3 = Jit_drain_freed_ranges env j2;
          (j4, block_size) = Jit_debugging env j3;
          (nextPC, memory_exception) = Analyze env em_address block_size
      in if memory_exception
         then (Done ISI_raised,
               jit_event (WARN_ISI_exception nextPC)
                 (jit_event CheckExceptions_called
                    (j4\<lparr>NPC := nextPC,
                        ppc_Exceptions := ppc_Exceptions j4 OR EXCEPTION_ISI env\<rparr>)))
         else (case SetEmitterStateToFreeCodeRegion env j4 of
                 None \<Rightarrow> (No_code_space, j4)
               | Some (free_near, free_far) \<Rightarrow>
                   (case DoJit_result env em_address nextPC free_near free_far of
                      None \<Rightarrow> (No_code_space, j4)
                    | Some (near_end_ptr, far_end_ptr) \<Rightarrow>
                        (Done Compiled,
                         Jit_commit_block env em_address (fst free_near) (fst free_far)
                           near_end_ptr far_end_ptr j4))))"

function Jit :: "jit_env \<Rightarrow> u32 \<Rightarrow> bool \<Rightarrow> jit64 \<Rightarrow> jit_outcome \<times> jit64" where
  "Jit env em_address clear_cache_and_retry_on_failure j =
     (case Jit_attempt env em_address j of
        (Done outcome, j1) \<Rightarrow> (outcome, j1)
      | (No_code_space, j1) \<Rightarrow>
          if clear_cache_and_retry_on_failure
          then Jit env em_address False (ClearCache env (jit_event WARN_flushing_code_caches j1))
          else (Fatal_exit, jit_event PanicAlert_no_code_space j1))"
  by pat_completeness auto
termination
  by (relation "measure (\<lambda>(env, em_address, retry, j). if retry then 1 else 0)") auto

text \<open>
  What reaches the translator from outside: host faults and requests to translate a guest
  address (\<open>Jit (em_address)\<close> is \<open>Jit (em_address, true)\<close>).
\<close>

datatype jit_call = Call_HandleFault u64 | Call_Jit u32

fun run_call :: "jit_env \<Rightarrow> jit_call \<Rightarrow> jit64 \<Rightarrow> jit64" where
  "run_call env (Call_HandleFault access_address) j = snd (HandleFault env access_address j)"
| "run_call env (Call_Jit em_address) j = snd (Jit env em_address True j)"

definition run_calls :: "jit_env \<Rightarrow> jit_call list \<Rightarrow> jit64 \<Rightarrow> jit64" where
  "run_calls env calls j = fold (run_call env) calls j"

text \<open>
  What the first statement of \<open>Jit\<close> logs when \<open>m_cleanup_after_stackfault\<close> is set, and the
  event lists in which neither the retry nor the alert of the last statement of \<open>Jit\<close> occurs.
\<close>

definition stackfault_cleanup_events :: "jit_env \<Rightarrow> jit64 \<Rightarrow> jit_event list" where
  "stackfault_cleanup_events env j =
     (if m_cleanup_after_stackfault j
      then ClearCache_called # (if win32 env then [resetstkoflw] else [])
      else [])"

definition retry_free :: "jit_event list \<Rightarrow> bool" where
  "retry_free es = (WARN_flushing_code_caches \<notin> set es \<and> PanicAlert_no_code_space \<notin> set es)"

subsection \<open>A concrete state for worked examples\<close>

text \<open>The state after \<open>Init\<close> with the default sync distances and overclock 1.0; byte \<open>i\<close> of the video buffer holds \<open>i mod 256\<close>.\<close>

definition fifo_init :: fifo_state where
  "fifo_init =
     \<lparr>s_fifo_aux_data = (\<lambda>i. 0),
      s_fifo_aux_write_ptr = 0, s_fifo_aux_read_ptr = 0,
      s_use_deterministic_gpu_thread = False,
      s_video_buffer = (\<lambda>i. of_nat i),
      s_video_buffer_read_ptr = 0, s_video_buffer_write_ptr = 0,
      s_video_buffer_seen_ptr = 0, s_video_buffer_pp_read_ptr = 0,
      s_sync_ticks = 0, s_syncing_suspended = True,
      s_config_sync_gpu = False,
      s_config_sync_gpu_max_distance = 200000,
      s_config_sync_gpu_min_distance = - 200000,
      s_config_sync_gpu_overclock = Finite 1 0,
      cp = \<lparr>bFF_GPReadEnable = 1, bFF_BPEnable = 0, CPBase = 0, CPEnd = 0x1000,
             CPReadPointer = 0, CPBreakpoint = 0, CPReadWriteDistance = 0,
             SafeCPReadPointer = 0\<rparr>,
      events = []\<rparr>"

text \<open>
  Collaborators for worked examples: single-core, rounding to nearest, a decoder that consumes everything
  it is given and charges 4000 cycles per call, and guest memory that reads as 7 everywhere.
\<close>

definition fifo_env_example :: fifo_env where
  "fifo_env_example =
     \<lparr>guest_memory = (\<lambda>a k. 7),
      RunFifo = (\<lambda>buf start stop. (stop, 4000)),
      RunFifo_preprocess = (\<lambda>buf start stop. stop),
      host_rounding_mode = To_nearest,
      IsDualCoreMode = False,
      mainloop_Wait = (\<lambda>st. st),
      mainloop_IsRunning = True,
      mainloop_IsDone = False,
      sync_wakeup_event_Wait = (\<lambda>st. st)\<rparr>"

text \<open>The same state with one 32-byte chunk waiting in the guest FIFO.\<close>

definition fifo_one_chunk :: fifo_state where
  "fifo_one_chunk = fifo_init\<lparr>cp := (cp fifo_init)\<lparr>CPReadWriteDistance := 32\<rparr>\<rparr>"


text \<open>The example collaborators in dual-core mode.\<close>

definition fifo_env_dual_core :: fifo_env where
  "fifo_env_dual_core = fifo_env_example\<lparr>IsDualCoreMode := True\<rparr>"

text \<open>Deterministic mode, the GPU thread idle at \<open>seen = write = 100\<close>, the preprocessor at 60.\<close>

definition gpu_conf_example :: gpu_conf where
  "gpu_conf_example =
     \<lparr>shared = fifo_init\<lparr>s_use_deterministic_gpu_thread := True,
                          s_video_buffer_pp_read_ptr := 60,
                          s_video_buffer_write_ptr := 100,
                          s_video_buffer_seen_ptr := 100\<rparr>,
      l_seen_ptr = 0, l_write_ptr = 0, decoded = []\<rparr>"

text \<open>
  A translator state and an empty emitter for worked examples: the BLR optimization is on, the
  block has accumulated 7 cycles, nothing needs cleaning up at an exit.
\<close>

definition jit_example :: jit64 where
  "jit_example =
     \<lparr>jo_optimizeGatherPipe = True, jo_profile_blocks = False, jo_enableBlocklink = True,
      js_blockStart = 0x80003100, js_downcountAmount = 7, js_fifoBytesSinceCheck = 0,
      js_numLoadStoreInst = 0, js_numFloatingPointInst = 0,
      js_constantGqr = (\<lambda>i. 0), js_constantGqrValid = 0,
      js_pairedQuantizeAddresses = {},
      m_enable_blr_optimization = True, m_cleanup_after_stackfault = False,
      m_stack = 0x7f0000000000, m_enable_debugging = False,
      m_free_ranges_near = [(0, 1000)], m_free_ranges_far = [(5000, 6000)],
      blocks = \<lparr>bc_blocks = [], ranges_to_free_near = [], ranges_to_free_far = []\<rparr>,
      trampolines_almost_full = False,
      MMCR0_Hex = 0, MMCR1_Hex = 0,
      GQR = (\<lambda>i. if i = 2 then 0x40004 else 0),
      NPC = 0, ppc_Exceptions = 0, jit_events = []\<rparr>"

definition codegen_example :: codegen where
  "codegen_example =
     \<lparr>near_code = [], far_code = [], in_far_code = False,
      curBlock = \<lparr>effectiveAddress = 0x80003100, checkedEntry = Near 0, normalEntry = Near 0,
                  linkData = [], near_begin = Near 0, near_end = Near 0,
                  far_begin = Far 0, far_end = Far 0\<rparr>\<rparr>"

text \<open>
  Collaborators of the translator for worked examples: a POSIX build on the CPU thread, range
  sets kept as plain lists (the largest span is the first one listed), an analyzer that never
  faults, and code generation that needs 10 bytes of near and 4 bytes of far code.
\<close>

definition jit_env_example :: jit_env where
  "jit_env_example =
     \<lparr>win32 = False, bJITNoBlockCache = False, bJITNoBlockLinking = False,
      IsCPUThread = True, IsStepping = False,
      physical_base = 0x100000000, logical_base = 0x300000000,
      BackPatch_result = (\<lambda>a. True),
      InvalidateICache_result = (\<lambda>a l f bc. bc\<lparr>bc_blocks := []\<rparr>),
      Analyze = (\<lambda>a n. (a + 4 * of_nat n, False)),
      code_buffer_size = 32000,
      EXCEPTION_ISI = 0x10,
      DoJit_result = (\<lambda>a n near far.
         if fst near + 10 \<le> snd near \<and> fst far + 4 \<le> snd far
         then Some (fst near + 10, fst far + 4) else None),
      rs_insert = (\<lambda>a b rs. if a < b then rs @ [(a, b)] else rs),
      rs_erase = (\<lambda>a b rs. map (\<lambda>r. if fst r = a then (b, snd r) else r) rs),
      rs_by_size_begin = (\<lambda>rs. case rs of [] \<Rightarrow> None | r # _ \<Rightarrow> Some r),
      region = 0, region_size = 1000, far_region = (5000, 6000)\<rparr>"

text \<open>A block that uses GQR1 and GQR2 and modifies GQR1.\<close>

definition code_block_example :: CodeBlock where
  "code_block_example = \<lparr>m_gqr_used = 6, m_gqr_modified = 2\<rparr>"

section \<open>Properties of the FIFO\<close>

text \<open>
  C10. \<open>PopFifoAuxBuffer\<close> checks nothing: for every size and every state it returns the old
  aux read pointer and advances the read pointer by the size, touching nothing else. On a freshly
  reset aux FIFO, where nothing has been pushed, popping one byte more than the buffer holds leaves
  the read pointer past the write pointer and past the end of the 2 MiB buffer.
\<close>

theorem PopFifoAuxBuffer_unchecked:
  "fst (PopFifoAuxBuffer sz st) = s_fifo_aux_read_ptr st
   \<and> snd (PopFifoAuxBuffer sz st) = st\<lparr>s_fifo_aux_read_ptr := s_fifo_aux_read_ptr st + sz\<rparr>
   \<and> fst (PopFifoAuxBuffer (FIFO_SIZE + 1) (ResetVideoBuffer st)) = 0
   \<and> s_fifo_aux_read_ptr (snd (PopFifoAuxBuffer (FIFO_SIZE + 1) (ResetVideoBuffer st)))
       > s_fifo_aux_write_ptr (snd (PopFifoAuxBuffer (FIFO_SIZE + 1) (ResetVideoBuffer st)))
   \<and> s_fifo_aux_read_ptr (snd (PopFifoAuxBuffer (FIFO_SIZE + 1) (ResetVideoBuffer st))) > FIFO_SIZE"
  by (simp add: PopFifoAuxBuffer_def ResetVideoBuffer_def FIFO_SIZE_def)

lemma FIFO_tail_unat:
  assumes "w \<le> FIFO_SIZE"
  shows "unat (FIFO_SIZE - w) = 2097152 - unat w"
  using assms by (simp add: unat_sub FIFO_SIZE_def)

text \<open>
  C5. With \<open>read \<le> write \<le> FIFO_SIZE\<close> and fewer than 32 bytes left behind the write pointer,
  \<open>ReadDataFromFifo\<close> either moves the unread bytes \<open>[read, write)\<close> to the front, sets
  \<open>read = 0\<close> and \<open>write = existing_len\<close> and then appends the 32-byte chunk; or, when
  \<open>existing_len + 32\<close> exceeds 2 MiB, raises the out-of-bounds alert and returns with buffer and
  pointers as they were.
\<close>

theorem ReadDataFromFifo_wraparound:
  assumes rw: "s_video_buffer_read_ptr st \<le> s_video_buffer_write_ptr st"
      and wf: "s_video_buffer_write_ptr st \<le> FIFO_SIZE"
      and tail: "FIFO_SIZE - s_video_buffer_write_ptr st < GATHER_PIPE_SIZE"
  shows "let existing_len = s_video_buffer_write_ptr st - s_video_buffer_read_ptr st;
             st' = ReadDataFromFifo env readPtr st
         in if unat existing_len + 32 > 2 * 1024 * 1024
            then st' = add_event (PanicAlert_FifoOutOfBounds existing_len) st
            else s_video_buffer_read_ptr st' = 0
               \<and> s_video_buffer_write_ptr st' = existing_len + 32
               \<and> (\<forall>i < unat existing_len.
                     s_video_buffer st' i = s_video_buffer st (unat (s_video_buffer_read_ptr st) + i))
               \<and> (\<forall>k < 32. s_video_buffer st' (unat existing_len + k) = guest_memory env readPtr k)
               \<and> events st' = events st"
proof -
  let ?len = "s_video_buffer_write_ptr st - s_video_buffer_read_ptr st"
  have len_le: "?len \<le> FIFO_SIZE"
    using rw wf by (simp add: word_le_nat_alt unat_sub)
  have fits: "(GATHER_PIPE_SIZE > FIFO_SIZE - ?len) = (unat ?len + 32 > 2 * 1024 * 1024)"
    using len_le FIFO_tail_unat[OF len_le]
    by (auto simp add: word_less_nat_alt GATHER_PIPE_SIZE_def word_le_nat_alt FIFO_SIZE_def)
  show ?thesis
    using tail fits
    by (auto simp add: ReadDataFromFifo_def Let_def CopyFromEmu_def memmove_def GATHER_PIPE_SIZE_def
        add_event_def)
qed

theorem ReadDataFromFifo_wraparound_witness:
  "(let st = fifo_init\<lparr>s_video_buffer_read_ptr := 2097104, s_video_buffer_write_ptr := 2097136\<rparr>;
        st' = ReadDataFromFifo fifo_env_example 0 st
    in s_video_buffer_read_ptr st \<le> s_video_buffer_write_ptr st
     \<and> s_video_buffer_write_ptr st \<le> FIFO_SIZE
     \<and> FIFO_SIZE - s_video_buffer_write_ptr st < GATHER_PIPE_SIZE
     \<and> s_video_buffer_read_ptr st' = 0
     \<and> s_video_buffer_write_ptr st' = 64
     \<and> s_video_buffer st' 31 = s_video_buffer st 2097135
     \<and> s_video_buffer st' 32 = 7
     \<and> events st' = [])"
proof -
  let ?st = "fifo_init\<lparr>s_video_buffer_read_ptr := 2097104, s_video_buffer_write_ptr := 2097136\<rparr>"
  let ?st' = "ReadDataFromFifo fifo_env_example 0 ?st"
  have h1: "s_video_buffer_read_ptr ?st \<le> s_video_buffer_write_ptr ?st"
    by simp
  have h2: "s_video_buffer_write_ptr ?st \<le> FIFO_SIZE"
    by (simp add: FIFO_SIZE_def)
  have h3: "FIFO_SIZE - s_video_buffer_write_ptr ?st < GATHER_PIPE_SIZE"
    by (simp add: FIFO_SIZE_def GATHER_PIPE_SIZE_def)
  have all: "s_video_buffer_read_ptr ?st' = 0
     \<and> s_video_buffer_write_ptr ?st' = 64
     \<and> (\<forall>i < 32. s_video_buffer ?st' i = s_video_buffer ?st (2097104 + i))
     \<and> (\<forall>k < 32. s_video_buffer ?st' (32 + k) = 7)
     \<and> events ?st' = events ?st"
    using ReadDataFromFifo_wraparound [OF h1 h2 h3, of fifo_env_example 0]
    by (simp add: Let_def fifo_env_example_def)
  from all have moved: "s_video_buffer ?st' 31 = s_video_buffer ?st (2097104 + 31)"
    by (elim conjE allE [of _ 31]) simp
  from all have fresh: "s_video_buffer ?st' (32 + 0) = 7"
    by (elim conjE allE [of _ 0]) simp
  from all moved fresh h1 h2 h3 show ?thesis
    by (simp add: Let_def fifo_init_def)
qed

lemma ReadDataFromFifo_out_of_bounds_example:
  "(let st = fifo_init\<lparr>s_video_buffer_read_ptr := 8, s_video_buffer_write_ptr := 2097136\<rparr>
    in ReadDataFromFifo fifo_env_example 0 st = st\<lparr>events := [PanicAlert_FifoOutOfBounds 2097128]\<rparr>)"
  by (simp add: ReadDataFromFifo_def fifo_init_def FIFO_SIZE_def GATHER_PIPE_SIZE_def Let_def
      add_event_def)

subsection \<open>Single-precision arithmetic\<close>

lemma bit_length_le: "n < 2 ^ k \<Longrightarrow> bit_length n \<le> k"
proof (induction k arbitrary: n)
  case 0
  then show ?case by simp
next
  case (Suc k)
  show ?case
  proof (cases "n = 0")
    case True
    then show ?thesis by simp
  next
    case False
    from Suc.prems have "n div 2 < 2 ^ k" by simp
    from Suc.IH [OF this] False show ?thesis by simp
  qed
qed

declare bit_length.simps [simp del]

lemma int_to_float_exact:
  assumes "\<bar>i\<bar> < 2 ^ 24"
  shows "int_to_float mode i = Finite i 0"
proof -
  from assms have "nat \<bar>i\<bar> < 2 ^ 24" by simp
  from bit_length_le [OF this] have "bit_length (nat \<bar>i\<bar>) - 24 = 0" by simp
  then show ?thesis
    by (cases mode) (simp_all add: int_to_float_def round_float_def round_div_def)
qed

lemma float_mul_exact:
  assumes "\<bar>i\<bar> < 2 ^ 24" and "\<bar>i * m\<bar> < 2 ^ 24"
  shows "float_mul mode (int_to_float mode i) (Finite m e) = Finite (i * m) e"
proof -
  from assms(2) have "nat \<bar>i * m\<bar> < 2 ^ 24" by simp
  from bit_length_le [OF this] have "bit_length (nat \<bar>i * m\<bar>) - 24 = 0" by simp
  then show ?thesis
    by (cases mode) (simp_all add: int_to_float_exact [OF assms(1)] round_float_def round_div_def)
qed

lemma overclock_one:
  assumes "\<bar>sint ticks\<bar> < 2 ^ 24"
  shows "float_to_int (float_mul mode (int_to_float mode (sint ticks)) (Finite 1 0)) = Some ticks"
proof -
  from assms have "nat \<bar>sint ticks\<bar> < 2 ^ 24" by simp
  from bit_length_le [OF this] have b: "bit_length (nat \<bar>sint ticks\<bar>) - 24 = 0" by simp
  have r: "float_mul mode (int_to_float mode (sint ticks)) (Finite 1 0) = Finite (sint ticks) 0"
    using b by (cases mode) (simp_all add: int_to_float_exact [OF assms] round_float_def round_div_def)
  from assms have "- (2 ^ 31) \<le> sint ticks" "sint ticks < 2 ^ 31" by simp_all
  then show ?thesis by (simp add: r)
qed

lemma float_examples:
  "float_to_int (float_mul To_nearest (int_to_float To_nearest 1000) (Finite 3 (- 1))) = Some 1500"
  "float_to_int (float_mul To_nearest (int_to_float To_nearest (- 3)) (Finite 1 (- 1))) = Some (- 1)"
  "float_to_int (float_mul To_nearest (int_to_float To_nearest 1000) (Finite 13421773 (- 27)))
     = Some 100"
  "int_to_float To_nearest 16777217 = Finite 8388608 1"
  "int_to_float Upward 16777217 = Finite 8388609 1"
  "float_to_int (float_mul To_nearest (int_to_float To_nearest 2000000000) (Finite 2 0)) = None"
  by (simp_all add: int_to_float_def round_float_def round_div_def bit_length.simps)

subsection \<open>RunGpuOnCpu\<close>










lemma ReadDataFromFifo_deterministic:
  "s_use_deterministic_gpu_thread (ReadDataFromFifo env p s) = s_use_deterministic_gpu_thread s"
  by (simp add: ReadDataFromFifo_def Let_def add_event_def)













text \<open>
  One chunk that costs 4000 cycles, 10000 ticks at overclock 1.0: the FIFO drains with ticks to
  spare, which are discarded, and the handler is dropped.
\<close>

lemma RunGpuOnCpu_example:
  "\<exists>st'. RunGpuOnCpu fifo_env_example 10000 fifo_one_chunk = Some (Inr (- 1, st'))
      \<and> s_sync_ticks st' = 0
      \<and> CPReadWriteDistance (cp st') = 0 \<and> CPReadPointer (cp st') = 32
      \<and> s_video_buffer_write_ptr st' = 32 \<and> s_video_buffer_read_ptr st' = 32
      \<and> events st' = [SaveSIMDState, LoadDefaultSIMDState, SetCPStatusFromGPU, LoadSIMDState]"
  by (simp add: RunGpuOnCpu_def RunGpuOnCpu_loop.simps RunGpuOnCpu_cond_def RunGpuOnCpu_body_def
    fifo_env_example_def fifo_init_def fifo_one_chunk_def AtBreakpoint_def Let_def ReadDataFromFifo_def
    FIFO_SIZE_def GATHER_PIPE_SIZE_def advance_read_pointer_def add_event_def GPU_TIME_SLOT_SIZE_def
    word_sle_eq word_sless_alt int_to_float_def round_float_def round_div_def bit_length.simps)


subsection \<open>WaitForGpuThread\<close>

text \<open>
  C6, as the code has it. \<open>WaitForGpuThread ticks\<close> adds \<open>ticks\<close> to \<open>sync_ticks\<close>. When the old
  value is non-negative and the main loop is done it returns \<open>-1\<close> and does nothing else. Otherwise,
  when the new value is below \<open>min_distance\<close> it returns \<open>1000 + min_distance - now\<close> and does
  nothing else; and when the new value has reached \<open>min_distance\<close> it calls \<open>RunGpu\<close> if the old
  value was below \<open>min_distance\<close>, then blocks on the wakeup event if the new value has reached
  \<open>max_distance\<close>, and returns \<open>1000\<close>.
\<close>

theorem WaitForGpuThread_cases:
  "(let old = s_sync_ticks st;
        now = s_sync_ticks st + ticks;
        min_distance = s_config_sync_gpu_min_distance st;
        max_distance = s_config_sync_gpu_max_distance st;
        st1 = st\<lparr>s_sync_ticks := now\<rparr>;
        idle = (0 \<le>s old \<and> mainloop_IsDone env)
    in (idle \<longrightarrow> WaitForGpuThread env ticks st = (- 1, st1))
     \<and> (\<not> idle \<and> now <s min_distance \<longrightarrow>
           WaitForGpuThread env ticks st = (GPU_TIME_SLOT_SIZE + min_distance - now, st1))
     \<and> (\<not> idle \<and> min_distance \<le>s now \<longrightarrow>
           WaitForGpuThread env ticks st =
             (GPU_TIME_SLOT_SIZE,
              (let st2 = (if old <s min_distance then RunGpu env st1 else st1)
               in if max_distance \<le>s now
                  then sync_wakeup_event_Wait env (add_event SyncWakeupEvent_Wait st2)
                  else st2))))"
proof -
  have cfg: "s_config_sync_gpu_min_distance (RunGpu env s) = s_config_sync_gpu_min_distance s"
    "s_config_sync_gpu_max_distance (RunGpu env s) = s_config_sync_gpu_max_distance s" for s
    by (simp_all add: RunGpu_def Let_def add_event_def)
  show ?thesis
    by (auto simp add: WaitForGpuThread_def Let_def cfg word_sless_alt word_sle_eq)
qed

theorem WaitForGpuThread_cases_witness:
  "(let st = fifo_init\<lparr>s_sync_ticks := - 200001, s_config_sync_gpu := True\<rparr>;
        r = WaitForGpuThread fifo_env_dual_core 400001 st
    in \<not> (0 \<le>s s_sync_ticks st \<and> mainloop_IsDone fifo_env_dual_core)
     \<and> s_config_sync_gpu_min_distance st \<le>s s_sync_ticks st + 400001
     \<and> fst r = 1000
     \<and> s_sync_ticks (snd r) = 200000
     \<and> events (snd r) = [Mainloop_Wakeup, ScheduleEvent 1000, SyncWakeupEvent_Wait])"
  using WaitForGpuThread_cases
    [where st = "fifo_init\<lparr>s_sync_ticks := - 200001, s_config_sync_gpu := True\<rparr>"
       and env = fifo_env_dual_core and ticks = 400001]
  by (simp add: Let_def fifo_init_def fifo_env_dual_core_def fifo_env_example_def RunGpu_def
      add_event_def GPU_TIME_SLOT_SIZE_def word_sless_alt word_sle_eq)

text \<open>
  C6 as stated fails: a new value at or above \<open>max_distance\<close> does not always block. With
  \<open>min_distance = 10\<close>, \<open>max_distance = 0\<close>, \<open>sync_ticks = -5\<close> and \<open>ticks = 10\<close> the call returns
  \<open>1005\<close> without waiting; with the default distances, an idle GPU, \<open>sync_ticks = 0\<close> and
  \<open>ticks = 200000\<close> it returns \<open>-1\<close> without waiting.
\<close>

theorem WaitForGpuThread_counterexample:
  "(let st = fifo_init\<lparr>s_sync_ticks := - 5,
                        s_config_sync_gpu_min_distance := 10,
                        s_config_sync_gpu_max_distance := 0\<rparr>;
        r = WaitForGpuThread fifo_env_dual_core 10 st
    in s_config_sync_gpu_max_distance st \<le>s s_sync_ticks st + 10
     \<and> SyncWakeupEvent_Wait \<notin> set (events (snd r))
     \<and> r = (1005, st\<lparr>s_sync_ticks := 5\<rparr>))
   \<and> (let st = fifo_init;
            r = WaitForGpuThread (fifo_env_dual_core\<lparr>mainloop_IsDone := True\<rparr>) 200000 st
        in s_config_sync_gpu_max_distance st \<le>s s_sync_ticks st + 200000
         \<and> SyncWakeupEvent_Wait \<notin> set (events (snd r))
         \<and> r = (- 1, st\<lparr>s_sync_ticks := 200000\<rparr>))"
  by (simp add: WaitForGpuThread_def Let_def fifo_init_def fifo_env_dual_core_def fifo_env_example_def
      RunGpu_def add_event_def GPU_TIME_SLOT_SIZE_def word_sless_alt word_sle_eq)

subsection \<open>The GPU loop and SyncGPU on the atomic pointers\<close>

lemma steps_agree:
  "shared (run_steps env RunGpuLoop_deterministic_steps c) = RunGpuLoop_deterministic env (shared c)"
  by (simp add: run_steps_def RunGpuLoop_deterministic_steps_def RunGpuLoop_deterministic_def Let_def)

lemma shuffles_3_2:
  "shuffles [a, b, c] [d, e] =
     {[a, b, c, d, e], [a, b, d, c, e], [a, b, d, e, c], [a, d, b, c, e], [a, d, b, e, c],
      [a, d, e, b, c], [d, a, b, c, e], [d, a, b, e, c], [d, a, e, b, c], [d, e, a, b, c]}"
  by (auto simp add: shuffles.simps)

lemma no_spurious:
  assumes tr: "tr \<in> shuffles RunGpuLoop_deterministic_steps [CPU_store_write new, CPU_store_seen new]"
      and idle: "s_video_buffer_write_ptr (shared c) \<le> s_video_buffer_seen_ptr (shared c)"
      and dec: "new \<le> s_video_buffer_seen_ptr (shared c)"
  shows "decoded (run_steps env tr c) = decoded c"
  using tr idle dec
  unfolding RunGpuLoop_deterministic_steps_def shuffles_3_2
  by (auto simp add: run_steps_def)

lemma SyncGPU_stores_decrease:
  assumes "s_video_buffer_pp_read_ptr st \<le> s_video_buffer_write_ptr st"
  shows "\<exists>new. SyncGPU_stores st = [CPU_store_write new, CPU_store_seen new]
            \<and> new \<le> s_video_buffer_write_ptr st"
  using assms by (simp add: SyncGPU_stores_def Let_def word_sub_le)

lemma SyncGPU_stores_agree:
  assumes "s_use_deterministic_gpu_thread st" and "mainloop_IsRunning env"
      and "mainloop_Wait env st = st"
  shows "shared (run_steps env (SyncGPU_stores st) c)
         = (shared c)\<lparr>s_video_buffer_write_ptr := s_video_buffer_write_ptr (SyncGPU env True st),
                      s_video_buffer_seen_ptr := s_video_buffer_seen_ptr (SyncGPU env True st)\<rparr>"
  using assms by (simp add: SyncGPU_stores_def SyncGPU_def run_steps_def Let_def add_event_def)

text \<open>
  C7, as the code has it. The loop body loads \<open>seen\<close> first and \<open>write\<close> second. \<open>SyncGPU\<close> stores
  \<open>write\<close> before \<open>seen\<close>, and never raises them. So when the GPU thread has seen everything
  (\<open>write \<le> seen\<close>) no interleaving of one loop body with the two stores of \<open>SyncGPU\<close> makes the
  loop decode. Run on its own, the loop body decodes exactly when \<open>write > seen\<close>, and then sets
  \<open>seen\<close> to the \<open>write\<close> it loaded.
\<close>

theorem RunGpuLoop_deterministic_seen_before_write:
  "(\<forall>tr \<in> shuffles RunGpuLoop_deterministic_steps (SyncGPU_stores (shared c)).
       s_video_buffer_write_ptr (shared c) \<le> s_video_buffer_seen_ptr (shared c)
       \<and> s_video_buffer_pp_read_ptr (shared c) \<le> s_video_buffer_write_ptr (shared c)
       \<longrightarrow> decoded (run_steps env tr c) = decoded c)
   \<and> shared (run_steps env RunGpuLoop_deterministic_steps c) = RunGpuLoop_deterministic env (shared c)
   \<and> l_seen_ptr (run_steps env (take 1 RunGpuLoop_deterministic_steps) c)
        = s_video_buffer_seen_ptr (shared c)
   \<and> l_write_ptr (run_steps env (take 1 RunGpuLoop_deterministic_steps) c) = l_write_ptr c
   \<and> (let st = shared c; st' = RunGpuLoop_deterministic env st
      in if s_video_buffer_write_ptr st > s_video_buffer_seen_ptr st
         then st' = st\<lparr>s_video_buffer_read_ptr :=
                         fst (RunFifo env (s_video_buffer st) (s_video_buffer_read_ptr st)
                                (s_video_buffer_write_ptr st)),
                       s_video_buffer_seen_ptr := s_video_buffer_write_ptr st\<rparr>
         else st' = st)"
proof -
  have a: "decoded (run_steps env tr c) = decoded c"
    if tr: "tr \<in> shuffles RunGpuLoop_deterministic_steps (SyncGPU_stores (shared c))"
      and idle: "s_video_buffer_write_ptr (shared c) \<le> s_video_buffer_seen_ptr (shared c)"
      and pp: "s_video_buffer_pp_read_ptr (shared c) \<le> s_video_buffer_write_ptr (shared c)"
    for tr
  proof -
    from SyncGPU_stores_decrease [OF pp] obtain new where
      st: "SyncGPU_stores (shared c) = [CPU_store_write new, CPU_store_seen new]"
      and le: "new \<le> s_video_buffer_write_ptr (shared c)"
      by blast
    from le idle have "new \<le> s_video_buffer_seen_ptr (shared c)" by simp
    with tr idle show ?thesis
      unfolding st by (rule no_spurious)
  qed
  have b: "l_seen_ptr (run_steps env (take 1 RunGpuLoop_deterministic_steps) c)
             = s_video_buffer_seen_ptr (shared c)"
    "l_write_ptr (run_steps env (take 1 RunGpuLoop_deterministic_steps) c) = l_write_ptr c"
    by (simp_all add: run_steps_def RunGpuLoop_deterministic_steps_def)
  have d: "let st = shared c; st' = RunGpuLoop_deterministic env st
      in if s_video_buffer_write_ptr st > s_video_buffer_seen_ptr st
         then st' = st\<lparr>s_video_buffer_read_ptr :=
                         fst (RunFifo env (s_video_buffer st) (s_video_buffer_read_ptr st)
                                (s_video_buffer_write_ptr st)),
                       s_video_buffer_seen_ptr := s_video_buffer_write_ptr st\<rparr>
         else st' = st"
    by (simp add: RunGpuLoop_deterministic_def Let_def)
  from a b d steps_agree [of env c] show ?thesis by blast
qed

theorem RunGpuLoop_deterministic_seen_before_write_witness:
  "(let tr = [GPU_load_seen, CPU_store_write 40, CPU_store_seen 40, GPU_load_write, GPU_decide]
    in tr \<in> shuffles RunGpuLoop_deterministic_steps (SyncGPU_stores (shared gpu_conf_example))
     \<and> s_video_buffer_write_ptr (shared gpu_conf_example)
         \<le> s_video_buffer_seen_ptr (shared gpu_conf_example)
     \<and> s_video_buffer_pp_read_ptr (shared gpu_conf_example)
         \<le> s_video_buffer_write_ptr (shared gpu_conf_example)
     \<and> decoded (run_steps fifo_env_dual_core tr gpu_conf_example) = [])"
proof -
  let ?tr = "[GPU_load_seen, CPU_store_write 40, CPU_store_seen 40, GPU_load_write, GPU_decide]"
  have st: "SyncGPU_stores (shared gpu_conf_example) = [CPU_store_write 40, CPU_store_seen 40]"
    by (simp add: SyncGPU_stores_def gpu_conf_example_def fifo_init_def)
  have h1: "?tr \<in> shuffles RunGpuLoop_deterministic_steps (SyncGPU_stores (shared gpu_conf_example))"
    unfolding st RunGpuLoop_deterministic_steps_def shuffles_3_2 by simp
  have h2: "s_video_buffer_write_ptr (shared gpu_conf_example)
         \<le> s_video_buffer_seen_ptr (shared gpu_conf_example)"
    by (simp add: gpu_conf_example_def)
  have h3: "s_video_buffer_pp_read_ptr (shared gpu_conf_example)
         \<le> s_video_buffer_write_ptr (shared gpu_conf_example)"
    by (simp add: gpu_conf_example_def)
  from RunGpuLoop_deterministic_seen_before_write [of gpu_conf_example fifo_env_dual_core] h1 h2 h3
  have "decoded (run_steps fifo_env_dual_core ?tr gpu_conf_example) = decoded gpu_conf_example"
    by blast
  with h1 h2 h3 show ?thesis by (simp add: gpu_conf_example_def)
qed

text \<open>
  C7 as stated fails on the order of the loads. Were \<open>write\<close> loaded first and \<open>seen\<close> second, the
  schedule "GPU loads write = 100; CPU stores write = 40; CPU stores seen = 40; GPU loads seen = 40"
  would make the GPU thread decode up to offset 100 although nothing new was written. The code's
  first load is that of \<open>seen\<close>: after one step the local \<open>seen_ptr\<close> holds 100 and the local
  \<open>write_ptr\<close> is still untouched.
\<close>

theorem write_before_seen_counterexample:
  "(let tr = [GPU_load_write, CPU_store_write 40, CPU_store_seen 40, GPU_load_seen, GPU_decide];
        c' = run_steps fifo_env_dual_core tr gpu_conf_example
    in tr \<in> shuffles write_then_seen_steps (SyncGPU_stores (shared gpu_conf_example))
     \<and> decoded c' = [(0, 100)]
     \<and> s_video_buffer_write_ptr (shared c') = 40
     \<and> s_video_buffer_seen_ptr (shared c') = 100)
   \<and> l_seen_ptr (run_steps fifo_env_dual_core (take 1 RunGpuLoop_deterministic_steps)
                   (gpu_conf_example\<lparr>l_seen_ptr := 1, l_write_ptr := 2\<rparr>)) = 100
   \<and> l_write_ptr (run_steps fifo_env_dual_core (take 1 RunGpuLoop_deterministic_steps)
                    (gpu_conf_example\<lparr>l_seen_ptr := 1, l_write_ptr := 2\<rparr>)) = 2
   \<and> RunGpuLoop_deterministic_steps \<noteq> write_then_seen_steps"
proof -
  have st: "SyncGPU_stores (shared gpu_conf_example) = [CPU_store_write 40, CPU_store_seen 40]"
    by (simp add: SyncGPU_stores_def gpu_conf_example_def fifo_init_def)
  show ?thesis
    unfolding st write_then_seen_steps_def shuffles_3_2
    by (simp add: run_steps_def gpu_conf_example_def fifo_init_def RunGpuLoop_deterministic_steps_def
        Let_def)
qed

section \<open>Properties of the translator\<close>

subsection \<open>What the emitter appends\<close>

lemma emits_Nil [simp]: "emits [] g = g"
  by (simp add: emits_def)

lemma emits_emits [simp]: "emits ys (emits xs g) = emits (xs @ ys) g"
  by (simp add: emits_def)

lemma emit_emits: "emit i g = emits [i] g"
  by (simp add: emits_def)

lemma emits_far: "in_far_code g \<Longrightarrow> emits xs g = g\<lparr>far_code := far_code g @ xs\<rparr>"
  by (induction xs arbitrary: g) (simp_all add: emits_def emit_def)

lemma emits_near: "\<not> in_far_code g \<Longrightarrow> emits xs g = g\<lparr>near_code := near_code g @ xs\<rparr>"
  by (induction xs arbitrary: g) (simp_all add: emits_def emit_def)

lemma gather_block:
  "SetJumpTarget p (emits [ABI_PushRegistersAndAdjustStack, ABI_CallFunction UpdateGatherPipe,
       ABI_PopRegistersAndAdjustStack]
     (snd (emit_fixup (J_CC CC_L Unresolved) (emits [a, b, c] g))))
   = emits [a, b, c, J_CC CC_L (Code (ptr_add (GetCodePtr g) 7)), ABI_PushRegistersAndAdjustStack,
        ABI_CallFunction UpdateGatherPipe, ABI_PopRegistersAndAdjustStack] g"
  if "p = fst (emit_fixup (J_CC CC_L Unresolved) (emits [a, b, c] g))"
  using that
  by (cases "in_far_code g")
     (simp_all add: emit_fixup_def emit_emits emits_far emits_near GetCodePtr_def nth_append
        list_update_append)

lemma Cleanup_eq:
  "Cleanup j g =
     ((jo_optimizeGatherPipe j \<and> 0 <s js_fifoBytesSinceCheck j) \<or> MMCR0_Hex j \<noteq> 0 \<or> MMCR1_Hex j \<noteq> 0,
      emits (cleanup_code j (GetCodePtr g)) g)"
  by (simp add: Cleanup_def cleanup_code_def gather_block split_beta Let_def)

subsection \<open>Walking emitted code\<close>

lemma paths_nonempty: "paths n code p st \<noteq> []"
  by (induction n arbitrary: p st)
     (auto split: option.splits x64.splits jump_target.splits)

text \<open>One step of the walk, taken only where the instruction under the pointer is known.\<close>

lemma paths_known:
  "fetch code p = Some i \<Longrightarrow> known i \<Longrightarrow>
   paths (Suc n) code p st =
          (case i of
             J_CC cc t \<Rightarrow>
               (case t of
                  Routine r \<Rightarrow> [(Leave_routine r, st)]
                | Code q \<Rightarrow> paths n code q st
                | Unresolved \<Rightarrow> [(Unresolved_jump, st)])
               @ paths n code (next_ptr p) st
           | JMP t \<Rightarrow>
               (case t of
                  Routine r \<Rightarrow> [(Leave_routine r, st)]
                | Code q \<Rightarrow> paths n code q st
                | Unresolved \<Rightarrow> [(Unresolved_jump, st)])
           | CALL t \<Rightarrow>
               (case t of
                  Routine r \<Rightarrow> [(Leave_routine r, st)]
                | Code q \<Rightarrow> paths n code q st
                | Unresolved \<Rightarrow> [(Unresolved_jump, st)])
               @ paths n code (next_ptr p) (st\<lparr>rscratch2 := None\<rparr>)
           | RET \<Rightarrow> [(Leave_ret, st)]
           | _ \<Rightarrow> paths n code (next_ptr p) (effect i st))"
  by simp

lemmas walk_simps = paths_known eval_nat_numeral effect_def write_to_def sub_amount_def

text \<open>
  Every path through the code of \<open>Cleanup\<close> comes out at its end with nothing written to
  \<open>downcount\<close>: whatever holds for all walks from there holds for all walks from its start.
\<close>

lemma walk_cleanup:
  assumes code_at: "\<And>i. i < length (cleanup_code j p) \<Longrightarrow>
                      fetch code (ptr_add p i) = Some (cleanup_code j p ! i)"
      and tail: "\<And>m st'. downcount_subs st' = downcount_subs st \<Longrightarrow>
                   list_all P (paths (n + m) code (ptr_add p (length (cleanup_code j p))) st')"
      and k: "n + 20 \<le> k"
  shows "list_all P (paths k code p st)"
proof -
  from k obtain k' where kk: "k = 20 + (n + k')"
    by (metis add.assoc add.commute le_Suc_ex)
  have tail': "list_all P (paths m code (ptr_add p (length (cleanup_code j p))) st')"
    if "downcount_subs st' = downcount_subs st" and "n \<le> m" for m st'
  proof -
    from that(2) obtain d where "m = n + d" by (auto dest: le_Suc_ex)
    with tail [OF that(1), of d] show ?thesis by simp
  qed
  note f = code_at [of 0] code_at [of 1] code_at [of 2] code_at [of 3] code_at [of 4]
    code_at [of 5] code_at [of 6] code_at [of 7] code_at [of 8] code_at [of 9]
    code_at [of 10] code_at [of 11] code_at [of 12] code_at [of 13] code_at [of 14]
    code_at [of 15] code_at [of 16] code_at [of 17] code_at [of 18] code_at [of 19]
  show ?thesis
    unfolding kk
    using f tail'
    by (cases "jo_optimizeGatherPipe j \<and> 0 <s js_fifoBytesSinceCheck j";
        cases "MMCR0_Hex j \<noteq> 0 \<or> MMCR1_Hex j \<noteq> 0"; cases "jo_profile_blocks j"; cases p)
       (simp_all add: cleanup_code_def walk_simps del: paths.simps fetch.simps)
qed

subsection \<open>The exits and downcount\<close>

lemmas emit_simps = Cleanup_eq emit_emits emits_near emits_far emit_fixup_def GetCodePtr_def
  SwitchToFarCode_def SwitchToNearCode_def add_linkData_def JustWriteExit_def
  JustWriteExit_plain_def Let_def nth_append list_update_append split_beta

lemmas good_simps = subtracted_once_def leaves_block_def nth_append

lemma WriteExceptionExit_paths:
  "list_all (subtracted_once (js_downcountAmount j)) (exit_paths (WriteExceptionExit j) g)"
  apply (cases "in_far_code g")
  apply (simp_all add: exit_paths_def WriteExceptionExit_def emit_simps)
  apply (rule walk_cleanup [where j = j and n = 8], simp add: nth_append,
      simp add: walk_simps good_simps del: paths.simps, simp)+
  done

lemma WriteExternalExceptionExit_paths:
  "list_all (subtracted_once (js_downcountAmount j)) (exit_paths (WriteExternalExceptionExit j) g)"
  apply (cases "in_far_code g")
  apply (simp_all add: exit_paths_def WriteExternalExceptionExit_def emit_simps)
  apply (rule walk_cleanup [where j = j and n = 8], simp add: nth_append,
      simp add: walk_simps good_simps del: paths.simps, simp)+
  done

lemma WriteRfiExitDestInRSCRATCH_paths:
  "list_all (subtracted_once (js_downcountAmount j)) (exit_paths (WriteRfiExitDestInRSCRATCH j) g)"
  apply (cases "in_far_code g")
  apply (simp_all add: exit_paths_def WriteRfiExitDestInRSCRATCH_def emit_simps)
  apply (simp_all add: walk_simps good_simps del: paths.simps)
  apply (rule walk_cleanup [where j = j and n = 8], simp add: nth_append,
      simp add: walk_simps good_simps del: paths.simps, simp)+
  done

lemma WriteIdleExit_paths:
  "list_all (subtracted_once (js_downcountAmount j)) (exit_paths (WriteIdleExit j destination) g)"
  apply (cases "in_far_code g")
  apply (simp_all add: exit_paths_def WriteIdleExit_def WriteExceptionExit_def emit_simps)
  apply (simp_all add: walk_simps good_simps del: paths.simps)
  apply (rule walk_cleanup [where j = j and n = 8], simp add: nth_append,
      simp add: walk_simps good_simps del: paths.simps, simp)+
  done

lemma WriteExit_paths:
  "list_all (subtracted_once (js_downcountAmount j)) (exit_paths (WriteExit j destination bl after) g)"
  apply (cases "in_far_code g"; cases "m_enable_blr_optimization j"; cases "bl")
  apply (simp_all add: exit_paths_def WriteExit_def emit_simps)
  apply (rule walk_cleanup [where j = j and n = 16], simp add: nth_append,
      simp add: walk_simps good_simps del: paths.simps, simp)+
  done

lemma WriteExitDestInRSCRATCH_paths:
  "list_all (subtracted_once (js_downcountAmount j)) (exit_paths (WriteExitDestInRSCRATCH j bl after) g)"
  apply (cases "in_far_code g"; cases "m_enable_blr_optimization j"; cases "bl")
  apply (simp_all add: exit_paths_def WriteExitDestInRSCRATCH_def emit_simps)
  apply (simp_all add: walk_simps good_simps del: paths.simps)
  apply (rule walk_cleanup [where j = j and n = 16], simp add: nth_append,
      simp add: walk_simps good_simps del: paths.simps, simp)+
  done

lemma WriteBLRExit_paths:
  assumes "m_enable_blr_optimization j"
  shows "list_all (blr_exit (js_downcountAmount j)) (exit_paths (WriteBLRExit j) g)"
  using assms
  apply (cases "in_far_code g"; cases "jo_optimizeGatherPipe j"; cases "0 <s js_fifoBytesSinceCheck j";
      cases "MMCR0_Hex j = 0"; cases "MMCR1_Hex j = 0")
  apply (simp_all add: exit_paths_def WriteBLRExit_def emit_simps)
  apply (simp_all add: walk_simps good_simps del: paths.simps)
  apply (rule walk_cleanup [where j = j and n = 8], simp add: nth_append,
      simp add: walk_simps good_simps blr_exit_def del: paths.simps, simp)+
  done

lemma WriteBLRExit_disabled:
  "\<not> m_enable_blr_optimization j \<Longrightarrow> WriteBLRExit j = WriteExitDestInRSCRATCH j False 0"
  by (rule ext) (simp add: WriteBLRExit_def)

lemma subtracts_once_iff:
  "subtracts_once c (exit_paths w g) = list_all (subtracted_once c) (exit_paths w g)"
  by (simp add: subtracts_once_def exit_paths_def paths_nonempty)

text \<open>
  C2, as the code has it. Let \<open>c\<close> be \<open>js.downcountAmount\<close> when the exit is written. Every path
  through the code written by \<open>WriteExit\<close> (with or without \<open>bl\<close>), \<open>WriteExitDestInRSCRATCH\<close>,
  \<open>WriteRfiExitDestInRSCRATCH\<close>, \<open>WriteExceptionExit\<close>, \<open>WriteExternalExceptionExit\<close> and
  \<open>WriteIdleExit\<close> subtracts \<open>c\<close> from \<open>downcount\<close> exactly once before it leaves the block. So does
  \<open>WriteBLRExit\<close> when the BLR optimization is off. When it is on, the path of \<open>WriteBLRExit\<close> that
  ends in \<open>RET\<close> subtracts \<open>c\<close> once, and the path taken on a mispredicted return jumps to
  \<open>dispatcher_mispredicted_blr\<close> before any subtraction, with \<open>c\<close> in \<open>RSCRATCH2\<close>.
\<close>

theorem exits_subtract_downcount:
  "(let c = js_downcountAmount j
    in subtracts_once c (exit_paths (WriteExit j destination bl after) g)
     \<and> subtracts_once c (exit_paths (WriteExitDestInRSCRATCH j bl after) g)
     \<and> subtracts_once c (exit_paths (WriteRfiExitDestInRSCRATCH j) g)
     \<and> subtracts_once c (exit_paths (WriteExceptionExit j) g)
     \<and> subtracts_once c (exit_paths (WriteExternalExceptionExit j) g)
     \<and> subtracts_once c (exit_paths (WriteIdleExit j destination) g)
     \<and> (if m_enable_blr_optimization j
        then list_all (blr_exit c) (exit_paths (WriteBLRExit j) g)
        else subtracts_once c (exit_paths (WriteBLRExit j) g)))"
proof -
  have blr: "if m_enable_blr_optimization j
        then list_all (blr_exit (js_downcountAmount j)) (exit_paths (WriteBLRExit j) g)
        else list_all (subtracted_once (js_downcountAmount j)) (exit_paths (WriteBLRExit j) g)"
  proof (cases "m_enable_blr_optimization j")
    case True
    then show ?thesis by (simp add: WriteBLRExit_paths)
  next
    case False
    then show ?thesis
      by (simp add: WriteBLRExit_disabled WriteExitDestInRSCRATCH_paths)
  qed
  show ?thesis
    unfolding Let_def subtracts_once_iff
    by (intro conjI WriteExit_paths WriteExitDestInRSCRATCH_paths WriteRfiExitDestInRSCRATCH_paths
        WriteExceptionExit_paths WriteExternalExceptionExit_paths WriteIdleExit_paths blr)
qed

lemma exit_examples:
  "exit_paths (WriteExit jit_example 0x80003200 False 0) codegen_example
     = [(Leave_routine do_timing, \<lparr>rscratch2 = None, downcount_subs = [Some 7]\<rparr>),
        (Leave_routine dispatcher_no_timing_check, \<lparr>rscratch2 = None, downcount_subs = [Some 7]\<rparr>)]"
  "exit_paths (WriteBLRExit jit_example) codegen_example
     = [(Leave_routine dispatcher_mispredicted_blr, \<lparr>rscratch2 = Some 7, downcount_subs = []\<rparr>),
        (Leave_ret, \<lparr>rscratch2 = Some 7, downcount_subs = [Some 7]\<rparr>)]"
  by (simp_all add: exit_paths_def WriteExit_def WriteBLRExit_def emit_simps cleanup_code_def
      jit_example_def codegen_example_def walk_simps)

theorem exits_subtract_downcount_witness:
  "subtracts_once 7 (exit_paths (WriteExit jit_example 0x80003200 True 0x80003104) codegen_example)
   \<and> list_all (blr_exit 7) (exit_paths (WriteBLRExit jit_example) codegen_example)
   \<and> exit_paths (WriteExit jit_example 0x80003200 False 0) codegen_example
       = [(Leave_routine do_timing, \<lparr>rscratch2 = None, downcount_subs = [Some 7]\<rparr>),
          (Leave_routine dispatcher_no_timing_check,
           \<lparr>rscratch2 = None, downcount_subs = [Some 7]\<rparr>)]"
proof -
  have c: "js_downcountAmount jit_example = 7" "m_enable_blr_optimization jit_example"
    by (simp_all add: jit_example_def)
  from exits_subtract_downcount [of jit_example "0x80003200" True "0x80003104" codegen_example]
  show ?thesis
    by (simp add: Let_def c exit_examples(1))
qed

text \<open>
  C2 as stated fails for the BLR exit: with the BLR optimization on, \<open>WriteBLRExit\<close> writes a path
  that leaves the block, towards \<open>dispatcher_mispredicted_blr\<close>, without having subtracted
  anything from \<open>downcount\<close>; the amount, 7 here, is only loaded into \<open>RSCRATCH2\<close>.
\<close>

theorem WriteBLRExit_counterexample:
  "exit_paths (WriteBLRExit jit_example) codegen_example
     = [(Leave_routine dispatcher_mispredicted_blr, \<lparr>rscratch2 = Some 7, downcount_subs = []\<rparr>),
        (Leave_ret, \<lparr>rscratch2 = Some 7, downcount_subs = [Some 7]\<rparr>)]
   \<and> \<not> subtracts_once (js_downcountAmount jit_example)
         (exit_paths (WriteBLRExit jit_example) codegen_example)"
  by (simp add: exit_examples(2) subtracts_once_def subtracted_once_def)

subsection \<open>The start of DoJit\<close>

lemma BitSet8_elements_set: "set (BitSet8_elements w) = {i. bit w i}"
  by (auto simp add: BitSet8_elements_def dest: bit_imp_le_length)

lemma ComputeStaticGQRs_bits:
  "set (BitSet8_elements (ComputeStaticGQRs cb))
   = set (BitSet8_elements (m_gqr_used cb)) - set (BitSet8_elements (m_gqr_modified cb))"
  by (auto simp add: BitSet8_elements_set ComputeStaticGQRs_def bit_and_iff bit_not_iff
      dest: bit_imp_le_length)

lemma gqr_check_eq:
  "gqr_check target a (j, g) =
     (j\<lparr>js_constantGqr := (js_constantGqr j)(a := GQR j a)\<rparr>,
      emits [CMP_or_TEST 32 (PPCSTATE (PPC_spr_GQR0 a)) (Imm32 (GQR j a)),
             J_CC CC_NZ (Code target)] g)"
  by (simp add: gqr_check_def Let_def)

lemma fold_gqr_check:
  "fold (gqr_check target) gs (j, g) =
     (j\<lparr>js_constantGqr := (\<lambda>i. if i \<in> set gs then GQR j i else js_constantGqr j i)\<rparr>,
      emits (concat (map (\<lambda>gqr. [CMP_or_TEST 32 (PPCSTATE (PPC_spr_GQR0 gqr)) (Imm32 (GQR j gqr)),
                                   J_CC CC_NZ (Code target)]) gs)) g)"
proof (induction gs arbitrary: j g)
  case Nil
  then show ?case by simp
next
  case (Cons a gs)
  let ?j = "j\<lparr>js_constantGqr := (js_constantGqr j)(a := GQR j a)\<rparr>"
  have f: "(\<lambda>i. if i \<in> set gs then GQR j i else ((js_constantGqr j)(a := GQR j a)) i)
        = (\<lambda>i. if i \<in> set (a # gs) then GQR j i else js_constantGqr j i)"
    by auto
  have "fold (gqr_check target) (a # gs) (j, g)
        = fold (gqr_check target) gs
            (?j, emits [CMP_or_TEST 32 (PPCSTATE (PPC_spr_GQR0 a)) (Imm32 (GQR j a)),
                        J_CC CC_NZ (Code target)] g)"
    by (simp only: fold_simps gqr_check_eq)
  also have "\<dots> = (j\<lparr>js_constantGqr := (\<lambda>i. if i \<in> set (a # gs) then GQR j i else js_constantGqr j i)\<rparr>,
      emits (concat (map (\<lambda>gqr. [CMP_or_TEST 32 (PPCSTATE (PPC_spr_GQR0 gqr)) (Imm32 (GQR j gqr)),
                                   J_CC CC_NZ (Code target)]) (a # gs))) g)"
  proof -
    have g: "(\<lambda>i. if i \<in> set gs then GQR ?j i else js_constantGqr ?j i)
          = (\<lambda>i. if i \<in> set (a # gs) then GQR j i else js_constantGqr j i)"
      by (rule ext) simp
    show ?thesis
      unfolding Cons.IH g by simp
  qed
  finally show ?case .
qed


text \<open>
  C9. For a block whose start address is not in \<open>js.pairedQuantizeAddresses\<close>, the start of
  \<open>DoJit\<close> leaves in \<open>js.constantGqrValid\<close> exactly the GQRs that the block uses and does not
  modify. When there is one, it appends to the far code the bail stub (set \<open>pc\<close> to the block
  start, call \<open>CompileExceptionCheck (PairedQuantize)\<close>, jump to \<open>dispatcher_no_check\<close>), and to
  the near code, for each of these GQRs from the lowest up, a compare of the GQR with its current
  value followed by a jump on inequality to the stub; it records the value in \<open>js.constantGqr\<close>.
  When there is none it appends neither.
\<close>

theorem DoJit_static_GQRs:
  assumes nb: "em_address \<notin> js_pairedQuantizeAddresses j"
      and near: "\<not> in_far_code g"
  shows "(let j' = fst (DoJit_prologue em_address cb (j, g));
              g' = snd (DoJit_prologue em_address cb (j, g));
              static = ComputeStaticGQRs cb;
              target = Far (length (far_code g))
          in js_constantGqrValid j' = static
           \<and> set (BitSet8_elements static)
               = set (BitSet8_elements (m_gqr_used cb)) - set (BitSet8_elements (m_gqr_modified cb))
           \<and> (if static \<noteq> 0
              then far_code g' = far_code g @ gqr_bail_stub em_address
                 \<and> near_code g' = near_code g @ [Align4] @ profile_prologue j
                                    @ gqr_checks j target (BitSet8_elements static)
                 \<and> (\<forall>gqr \<in> set (BitSet8_elements static). js_constantGqr j' gqr = GQR j gqr)
              else far_code g' = far_code g
                 \<and> near_code g' = near_code g @ [Align4] @ profile_prologue j))"
proof -
  let ?r = "DoJit_prologue em_address cb (j, g)"
  let ?static = "ComputeStaticGQRs cb"
  have bits: "set (BitSet8_elements ?static)
      = set (BitSet8_elements (m_gqr_used cb)) - set (BitSet8_elements (m_gqr_modified cb))"
    by (rule ComputeStaticGQRs_bits)
  have rest: "js_constantGqrValid (fst ?r) = ?static
      \<and> (if ?static \<noteq> 0
         then far_code (snd ?r) = far_code g @ gqr_bail_stub em_address
            \<and> near_code (snd ?r) = near_code g @ [Align4] @ profile_prologue j
                 @ gqr_checks j (Far (length (far_code g))) (BitSet8_elements ?static)
            \<and> (\<forall>gqr \<in> set (BitSet8_elements ?static). js_constantGqr (fst ?r) gqr = GQR j gqr)
         else far_code (snd ?r) = far_code g
            \<and> near_code (snd ?r) = near_code g @ [Align4] @ profile_prologue j)"
  proof (cases "?static = 0")
    case True
    with nb near show ?thesis
      by (simp add: DoJit_prologue_def AlignCode4_def Let_def emit_emits emits_near
          profile_prologue_def split_beta)
  next
    case False
    with nb near show ?thesis
      by (simp add: DoJit_prologue_def AlignCode4_def Let_def emit_emits emits_near emits_far
          profile_prologue_def gqr_checks_def gqr_bail_stub_def split_beta
          fold_gqr_check SwitchToFarCode_def SwitchToNearCode_def GetCodePtr_def)
  qed
  from bits rest show ?thesis
    unfolding Let_def by (intro conjI) simp_all
qed

lemma DoJit_blacklisted:
  assumes "em_address \<in> js_pairedQuantizeAddresses j" and "\<not> in_far_code g"
  shows "js_constantGqrValid (fst (DoJit_prologue em_address cb (j, g))) = 0
       \<and> far_code (snd (DoJit_prologue em_address cb (j, g))) = far_code g
       \<and> near_code (snd (DoJit_prologue em_address cb (j, g)))
           = near_code g @ [Align4] @ profile_prologue j"
  using assms
  by (simp add: DoJit_prologue_def AlignCode4_def Let_def emit_emits emits_near
      profile_prologue_def split_beta)

text \<open>
  C8, as the code has it. \<open>DoJit\<close> sets \<open>checkedEntry\<close> and \<open>normalEntry\<close> of the block to one and the
  same code pointer, the aligned start of the block.
\<close>

theorem DoJit_entries_equal:
  "checkedEntry (curBlock (snd (DoJit_prologue em_address cb (j, g)))) = fst (AlignCode4 g)
   \<and> normalEntry (curBlock (snd (DoJit_prologue em_address cb (j, g)))) = fst (AlignCode4 g)"
proof -
  have c: "curBlock (emits xs g) = curBlock g" for xs g
    by (cases "in_far_code g") (simp_all add: emits_near emits_far)
  have i: "in_far_code (emits xs g) = in_far_code g" for xs g
    by (cases "in_far_code g") (simp_all add: emits_near emits_far)
  show ?thesis
    by (simp add: DoJit_prologue_def AlignCode4_def Let_def split_beta c i fold_gqr_check
        emit_emits SwitchToFarCode_def SwitchToNearCode_def)
qed

lemma BitSet8_elements_4: "BitSet8_elements (4 :: u8) = [2]"
  by (simp add: BitSet8_elements_def upt_conv_Cons bit_numeral_simps bit_0 bit_Suc)

theorem DoJit_static_GQRs_witness:
  "(let r = DoJit_prologue 0x80003100 code_block_example (jit_example, codegen_example)
    in 0x80003100 \<notin> js_pairedQuantizeAddresses jit_example
     \<and> \<not> in_far_code codegen_example
     \<and> js_constantGqrValid (fst r) = 4
     \<and> far_code (snd r) = [MOV 32 (PPCSTATE PPC_pc) (Imm32 0x80003100),
                            ABI_PushRegistersAndAdjustStack,
                            ABI_CallFunction (CompileExceptionCheck PairedQuantize),
                            ABI_PopRegistersAndAdjustStack,
                            JMP (Routine dispatcher_no_check)]
     \<and> near_code (snd r) = [Align4,
                             CMP_or_TEST 32 (PPCSTATE (PPC_spr_GQR0 2)) (Imm32 0x40004),
                             J_CC CC_NZ (Code (Far 0))])"
proof -
  have h1: "0x80003100 \<notin> js_pairedQuantizeAddresses jit_example"
    by (simp add: jit_example_def)
  have h2: "\<not> in_far_code codegen_example"
    by (simp add: codegen_example_def)
  have s: "ComputeStaticGQRs code_block_example = 4"
    by (simp add: ComputeStaticGQRs_def code_block_example_def)
  from DoJit_static_GQRs [OF h1 h2, of code_block_example] h1 h2
  show ?thesis
    by (simp add: Let_def s BitSet8_elements_4 gqr_bail_stub_def gqr_checks_def
        profile_prologue_def jit_example_def codegen_example_def)
qed

text \<open>
  C8 as stated fails: the two entry points of a block are the same pointer, so no walk from one
  can differ from the walk from the other. For the example block both are \<open>Near 1\<close>, the position
  behind the alignment padding.
\<close>

theorem entries_counterexample:
  "(let b = curBlock (snd (DoJit_prologue 0x80003100 code_block_example
                            (jit_example, codegen_example)))
    in checkedEntry b = Near 1 \<and> normalEntry b = Near 1
     \<and> \<not> checkedEntry b \<noteq> normalEntry b)"
  by (simp add: DoJit_prologue_def AlignCode4_def Let_def split_beta fold_gqr_check emit_emits
      emits_near emits_far SwitchToFarCode_def SwitchToNearCode_def GetCodePtr_def
      jit_example_def codegen_example_def)

lemma ClearCache_fields:
  "m_enable_blr_optimization (ClearCache env j) = m_enable_blr_optimization j"
  "m_cleanup_after_stackfault (ClearCache env j) = m_cleanup_after_stackfault j"
  "jit_events (ClearCache env j) = jit_events j @ [ClearCache_called]"
  by (simp_all add: ClearCache_def ResetFreeMemoryRanges_def jit_event_def)

lemma jit_event_fields:
  "m_enable_blr_optimization (jit_event e j) = m_enable_blr_optimization j"
  "m_cleanup_after_stackfault (jit_event e j) = m_cleanup_after_stackfault j"
  "jit_events (jit_event e j) = jit_events j @ [e]"
  by (simp_all add: jit_event_def)

lemma Jit_cleanup_after_stackfault_fields:
  "m_enable_blr_optimization (Jit_cleanup_after_stackfault env j) = m_enable_blr_optimization j"
  "\<not> m_cleanup_after_stackfault (Jit_cleanup_after_stackfault env j)"
  "jit_events (Jit_cleanup_after_stackfault env j) = jit_events j @ stackfault_cleanup_events env j"
  by (simp_all add: Jit_cleanup_after_stackfault_def Let_def ClearCache_fields jit_event_fields
      stackfault_cleanup_events_def)

lemma Jit_flush_trampolines_fields:
  "m_enable_blr_optimization (Jit_flush_trampolines env j) = m_enable_blr_optimization j"
  "m_cleanup_after_stackfault (Jit_flush_trampolines env j) = m_cleanup_after_stackfault j"
  "\<exists>es. jit_events (Jit_flush_trampolines env j) = jit_events j @ es \<and> retry_free es"
  by (simp_all add: Jit_flush_trampolines_def ClearCache_fields jit_event_fields retry_free_def)

lemma Jit_drain_freed_ranges_fields:
  "m_enable_blr_optimization (Jit_drain_freed_ranges env j) = m_enable_blr_optimization j"
  "m_cleanup_after_stackfault (Jit_drain_freed_ranges env j) = m_cleanup_after_stackfault j"
  "jit_events (Jit_drain_freed_ranges env j) = jit_events j"
  by (simp_all add: Jit_drain_freed_ranges_def)

lemma Jit_debugging_fields:
  "m_enable_blr_optimization (fst (Jit_debugging env j)) = m_enable_blr_optimization j"
  "m_cleanup_after_stackfault (fst (Jit_debugging env j)) = m_cleanup_after_stackfault j"
  "jit_events (fst (Jit_debugging env j)) = jit_events j"
  by (simp_all add: Jit_debugging_def Let_def EnableBlockLink_def)

lemma Jit_commit_block_fields:
  "m_enable_blr_optimization (Jit_commit_block env em a b c d j) = m_enable_blr_optimization j"
  "m_cleanup_after_stackfault (Jit_commit_block env em a b c d j) = m_cleanup_after_stackfault j"
  "jit_events (Jit_commit_block env em a b c d j) = jit_events j"
  by (simp_all add: Jit_commit_block_def Let_def)

lemmas stage_fields = Jit_cleanup_after_stackfault_fields Jit_flush_trampolines_fields(1,2)
  Jit_drain_freed_ranges_fields Jit_debugging_fields Jit_commit_block_fields jit_event_fields

lemma Jit_attempt_fields:
  "m_enable_blr_optimization (snd (Jit_attempt env em j)) = m_enable_blr_optimization j"
  "\<not> m_cleanup_after_stackfault (snd (Jit_attempt env em j))"
  by (simp_all add: Jit_attempt_def Let_def split_beta stage_fields split: option.splits)

lemma Jit_attempt_events:
  "\<exists>es. jit_events (snd (Jit_attempt env em j))
          = jit_events j @ stackfault_cleanup_events env j @ es \<and> retry_free es"
proof -
  let ?j1 = "Jit_cleanup_after_stackfault env j"
  from Jit_flush_trampolines_fields(3) [of env ?j1] obtain es where
    es: "jit_events (Jit_flush_trampolines env ?j1) = jit_events ?j1 @ es" "retry_free es"
    by blast
  let ?j4 = "fst (Jit_debugging env (Jit_drain_freed_ranges env (Jit_flush_trampolines env ?j1)))"
  have e4: "jit_events ?j4 = jit_events j @ stackfault_cleanup_events env j @ es"
    by (simp add: stage_fields es)
  obtain nextPC ex where an: "Analyze env em (snd (Jit_debugging env (Jit_drain_freed_ranges env (Jit_flush_trampolines env ?j1)))) = (nextPC, ex)"
    by (cases "Analyze env em (snd (Jit_debugging env (Jit_drain_freed_ranges env (Jit_flush_trampolines env ?j1))))") auto
  have "jit_events (snd (Jit_attempt env em j)) = jit_events ?j4
      \<or> jit_events (snd (Jit_attempt env em j))
          = jit_events ?j4 @ [CheckExceptions_called, WARN_ISI_exception nextPC]"
    by (simp add: Jit_attempt_def Let_def split_beta an stage_fields split: option.splits)
  then show ?thesis
  proof
    assume "jit_events (snd (Jit_attempt env em j)) = jit_events ?j4"
    with e4 es(2) show ?thesis by simp
  next
    assume "jit_events (snd (Jit_attempt env em j))
          = jit_events ?j4 @ [CheckExceptions_called, WARN_ISI_exception nextPC]"
    moreover have "retry_free (es @ [CheckExceptions_called, WARN_ISI_exception nextPC])"
      using es(2) by (simp add: retry_free_def)
    ultimately show ?thesis using e4 by simp
  qed
qed


subsection \<open>Jit: retrying after a full clear\<close>

declare Jit.simps [simp del]

lemma Jit_no_retry:
  "Jit env em False j =
     (case Jit_attempt env em j of
        (Done outcome, j1) \<Rightarrow> (outcome, j1)
      | (No_code_space, j1) \<Rightarrow> (Fatal_exit, jit_event PanicAlert_no_code_space j1))"
  by (subst Jit.simps) (simp split: prod.split attempt.split)

lemma Jit_retry:
  "Jit env em True j =
     (case Jit_attempt env em j of
        (Done outcome, j1) \<Rightarrow> (outcome, j1)
      | (No_code_space, j1) \<Rightarrow>
          Jit env em False (ClearCache env (jit_event WARN_flushing_code_caches j1)))"
  by (subst Jit.simps) (simp split: prod.split attempt.split)



lemma retry_free_cleanup: "retry_free (stackfault_cleanup_events env j)"
  by (simp add: retry_free_def stackfault_cleanup_events_def)

lemma retry_free_append: "retry_free xs \<Longrightarrow> retry_free ys \<Longrightarrow> retry_free (xs @ ys)"
  by (auto simp add: retry_free_def)

lemma Jit_attempt_appends:
  "\<exists>es. jit_events (snd (Jit_attempt env em j)) = jit_events j @ es \<and> retry_free es"
proof -
  from Jit_attempt_events [of env em j] obtain es where
    "jit_events (snd (Jit_attempt env em j)) = jit_events j @ stackfault_cleanup_events env j @ es"
    "retry_free es" by blast
  then show ?thesis
    by (intro exI [of _ "stackfault_cleanup_events env j @ es"])
       (simp add: retry_free_append retry_free_cleanup)
qed






text \<open>With room after the clear, the retry compiles the block.\<close>

lemma Jit_retry_example:
  "(let j = jit_example\<lparr>m_free_ranges_near := [(0, 5)]\<rparr>;
        r = Jit jit_env_example 0x80003100 True j
    in fst r = Compiled
     \<and> jit_events (snd r) = [WARN_flushing_code_caches, ClearCache_called]
     \<and> m_free_ranges_near (snd r) = [(10, 1000)])"
  by (simp add: Jit_retry Jit_no_retry Jit_attempt_def Jit_cleanup_after_stackfault_def
      Jit_flush_trampolines_def Jit_drain_freed_ranges_def Jit_debugging_def
      Jit_commit_block_def SetEmitterStateToFreeCodeRegion_def ClearCache_def
      ResetFreeMemoryRanges_def jit_event_def jit_env_example_def jit_example_def Let_def)

subsection \<open>The stack fault\<close>

lemma Jit_fields:
  "m_enable_blr_optimization (snd (Jit env em retry j)) = m_enable_blr_optimization j"
  "\<not> m_cleanup_after_stackfault (snd (Jit env em retry j))"
proof -
  have a: "m_enable_blr_optimization (snd (Jit env em False j)) = m_enable_blr_optimization j
           \<and> \<not> m_cleanup_after_stackfault (snd (Jit env em False j))" for j
    using Jit_attempt_fields [of env em j]
    by (cases "Jit_attempt env em j"; cases "fst (Jit_attempt env em j)")
       (auto simp add: Jit_no_retry jit_event_fields)
  have b: "m_enable_blr_optimization (snd (Jit env em True j)) = m_enable_blr_optimization j
           \<and> \<not> m_cleanup_after_stackfault (snd (Jit env em True j))"
    using Jit_attempt_fields [of env em j]
    by (cases "Jit_attempt env em j"; cases "fst (Jit_attempt env em j)")
       (auto simp add: Jit_retry a ClearCache_fields jit_event_fields)
  show "m_enable_blr_optimization (snd (Jit env em retry j)) = m_enable_blr_optimization j"
    using a [of j] b by (cases retry) simp_all
  show "\<not> m_cleanup_after_stackfault (snd (Jit env em retry j))"
    using a [of j] b by (cases retry) simp_all
qed

lemma Jit_events_cleanup:
  "\<exists>es. jit_events (snd (Jit env em retry j))
          = jit_events j @ stackfault_cleanup_events env j @ es"
proof -
  obtain a1 j1 where at1: "Jit_attempt env em j = (a1, j1)"
    by (cases "Jit_attempt env em j") auto
  from Jit_attempt_events [of env em j] at1 obtain es1 where
    es1: "jit_events j1 = jit_events j @ stackfault_cleanup_events env j @ es1" by auto
  have nr: "\<exists>es. jit_events (snd (Jit env em False j'))
              = jit_events j' @ es" for j'
  proof -
    obtain a2 j2 where at2: "Jit_attempt env em j' = (a2, j2)"
      by (cases "Jit_attempt env em j'") auto
    from Jit_attempt_appends [of env em j'] at2 obtain es2 where
      "jit_events j2 = jit_events j' @ es2" by auto
    with at2 show ?thesis
      by (cases a2) (simp_all add: Jit_no_retry jit_event_fields)
  qed
  show ?thesis
  proof (cases a1)
    case (Done outcome)
    with at1 es1 show ?thesis
      by (cases retry) (simp_all add: Jit_retry Jit_no_retry)
  next
    case No_code_space
    show ?thesis
    proof (cases retry)
      case False
      with No_code_space at1 es1 show ?thesis
        by (simp add: Jit_no_retry jit_event_fields)
    next
      case True
      let ?j2 = "ClearCache env (jit_event WARN_flushing_code_caches j1)"
      from nr [of ?j2] obtain es where
        "jit_events (snd (Jit env em False ?j2)) = jit_events ?j2 @ es" by blast
      with True No_code_space at1 es1 show ?thesis
        by (simp add: Jit_retry ClearCache_fields jit_event_fields)
    qed
  qed
qed

lemma HandleFault_blr_off:
  "\<not> m_enable_blr_optimization j \<Longrightarrow> snd (HandleFault env a j) = j"
  by (simp add: HandleFault_def Let_def)

lemma run_call_blr_off:
  "\<not> m_enable_blr_optimization j \<Longrightarrow> \<not> m_enable_blr_optimization (run_call env c j)"
  by (cases c) (simp_all add: HandleFault_blr_off Jit_fields)

lemma run_calls_blr_off:
  "\<not> m_enable_blr_optimization j \<Longrightarrow> \<not> m_enable_blr_optimization (run_calls env calls j)"
  unfolding run_calls_def
  by (induction calls arbitrary: j) (simp_all add: run_call_blr_off)

lemma guard_window:
  fixes stack a :: u64
  assumes "unat stack + 0x180000 < (2::nat) ^ 64"
  shows "(stack + GUARD_OFFSET \<le> a \<and> a < stack + GUARD_OFFSET + GUARD_SIZE)
         \<longleftrightarrow> (a - stack \<ge> GUARD_OFFSET \<and> a - stack < GUARD_OFFSET + GUARD_SIZE)"
proof -
  have go: "GUARD_OFFSET = 0x170000" "GUARD_OFFSET + GUARD_SIZE = 0x180000"
    by (simp_all add: GUARD_OFFSET_def GUARD_SIZE_def STACK_SIZE_def SAFE_STACK_SIZE_def)
  have lo: "unat (stack + 0x170000) = unat stack + 0x170000"
    using assms by (simp add: unat_word_ariths)
  have hi: "unat (stack + 0x180000) = unat stack + 0x180000"
    using assms by (simp add: unat_word_ariths)
  have a: "unat a < 2 ^ 64"
    using unsigned_less [of a] by simp
  have d: "unat (a - stack)
             = (if unat stack \<le> unat a then unat a - unat stack
                else unat a + 2 ^ 64 - unat stack)"
    by (simp add: unat_sub_if' word_le_nat_alt)
  have core: "(stack + 0x170000 \<le> a \<and> a < stack + 0x180000)
         \<longleftrightarrow> (0x170000 \<le> a - stack \<and> a - stack < 0x180000)"
    using assms a
    by (simp add: word_le_nat_alt word_less_nat_alt lo hi d) arith
  have e: "stack + GUARD_OFFSET + GUARD_SIZE = stack + 0x180000"
    using go(2) by (simp add: add.assoc)
  show ?thesis
    by (simp only: e go(2)) (simp only: go(1) core)
qed

lemma HandleStackFault_taken:
  assumes "m_enable_blr_optimization j" "IsCPUThread env"
  shows "HandleStackFault env j =
     (True, j\<lparr>m_enable_blr_optimization := False, m_cleanup_after_stackfault := True,
              blocks := InvalidateICache_result env 0 0xffffffff True (blocks j),
              jit_events := jit_events j @ WARN_BLR_cache_disabled
                # (if win32 env then []
                   else [UnWriteProtectMemory (m_stack j + GUARD_OFFSET) GUARD_SIZE])
                @ [InvalidateICache 0 0xffffffff True, ForceExceptionCheck 0]\<rparr>)"
  using assms by (simp add: HandleStackFault_def Let_def jit_event_def)

text \<open>
  C4, as the code has it. While the BLR optimization is enabled, a fault taken on the CPU thread
  at an address in \<open>[stack + GUARD_OFFSET, stack + GUARD_OFFSET + GUARD_SIZE)\<close> (the window does
  not wrap around the address space) makes \<open>HandleFault\<close> return true and changes the translator
  in exactly this way: the BLR optimization is disabled, \<open>m_cleanup_after_stackfault\<close> is set,
  the whole block cache is invalidated, and the log gains the warning, the unprotecting of the
  guard (not on Windows), the invalidation and the forced exception check, in this order. The
  optimization then stays disabled through every later fault and translation request. The
  next entry into \<open>Jit\<close> clears the JIT cache, resets the stack guard on Windows only
  (\<open>_resetstkoflw\<close>), and clears the flag.
\<close>

theorem HandleFault_stack_guard:
  assumes "m_enable_blr_optimization j" and "IsCPUThread env"
    and "unat (m_stack j) + 0x180000 < (2::nat) ^ 64"
    and "m_stack j + GUARD_OFFSET \<le> access_address"
    and "access_address < m_stack j + GUARD_OFFSET + GUARD_SIZE"
  shows "(let j' = snd (HandleFault env access_address j)
          in fst (HandleFault env access_address j)
           \<and> j' = j\<lparr>m_enable_blr_optimization := False, m_cleanup_after_stackfault := True,
                     blocks := InvalidateICache_result env 0 0xffffffff True (blocks j),
                     jit_events := jit_events j @ WARN_BLR_cache_disabled
                       # (if win32 env then []
                          else [UnWriteProtectMemory (m_stack j + GUARD_OFFSET) GUARD_SIZE])
                       @ [InvalidateICache 0 0xffffffff True, ForceExceptionCheck 0]\<rparr>
           \<and> (\<forall>calls. \<not> m_enable_blr_optimization (run_calls env calls j'))
           \<and> (\<forall>em_address retry.
                 \<not> m_cleanup_after_stackfault (snd (Jit env em_address retry j'))
               \<and> (\<exists>es. jit_events (snd (Jit env em_address retry j'))
                          = jit_events j' @ ClearCache_called
                              # (if win32 env then [resetstkoflw] else []) @ es)))"
proof -
  let ?j' = "j\<lparr>m_enable_blr_optimization := False, m_cleanup_after_stackfault := True,
                blocks := InvalidateICache_result env 0 0xffffffff True (blocks j),
                jit_events := jit_events j @ WARN_BLR_cache_disabled
                  # (if win32 env then []
                     else [UnWriteProtectMemory (m_stack j + GUARD_OFFSET) GUARD_SIZE])
                  @ [InvalidateICache 0 0xffffffff True, ForceExceptionCheck 0]\<rparr>"
  from guard_window [OF assms(3), of access_address] assms(4,5)
  have w: "GUARD_OFFSET \<le> access_address - m_stack j"
          "access_address - m_stack j < GUARD_OFFSET + GUARD_SIZE" by simp_all
  have hf: "HandleFault env access_address j = (True, ?j')"
    using assms(1) w HandleStackFault_taken [OF assms(1,2)]
    by (simp only: HandleFault_def Let_def simp_thms if_True)
  have off: "\<not> m_enable_blr_optimization ?j'" by simp
  have perm: "\<forall>calls. \<not> m_enable_blr_optimization (run_calls env calls ?j')"
    using run_calls_blr_off [OF off] by blast
  have cl: "stackfault_cleanup_events env ?j'
              = ClearCache_called # (if win32 env then [resetstkoflw] else [])"
    by (simp add: stackfault_cleanup_events_def)
  have nxt: "\<not> m_cleanup_after_stackfault (snd (Jit env em retry ?j'))
             \<and> (\<exists>es. jit_events (snd (Jit env em retry ?j'))
                        = jit_events ?j' @ ClearCache_called
                            # (if win32 env then [resetstkoflw] else []) @ es)" for em retry
    using Jit_fields(2) [of env em retry ?j'] Jit_events_cleanup [of env em retry ?j']
    unfolding cl by simp
  show ?thesis
    unfolding Let_def hf fst_conv snd_conv
    using perm nxt by (intro conjI allI) simp_all
qed

text \<open>
  The first address of the window of the example translator, on the CPU thread of a POSIX build.
\<close>

theorem HandleFault_stack_guard_witness:
  "m_enable_blr_optimization jit_example \<and> IsCPUThread jit_env_example
   \<and> m_stack jit_example + GUARD_OFFSET \<le> 0x7f0000170000
   \<and> 0x7f0000170000 < m_stack jit_example + GUARD_OFFSET + GUARD_SIZE
   \<and> fst (HandleFault jit_env_example 0x7f0000170000 jit_example)
   \<and> jit_events (snd (HandleFault jit_env_example 0x7f0000170000 jit_example))
       = [WARN_BLR_cache_disabled, UnWriteProtectMemory 0x7f0000170000 0x10000,
          InvalidateICache 0 0xffffffff True, ForceExceptionCheck 0]
   \<and> \<not> m_enable_blr_optimization
         (run_calls jit_env_example [Call_Jit 0x80003100, Call_HandleFault 0x7f0000170000]
            (snd (HandleFault jit_env_example 0x7f0000170000 jit_example)))"
proof -
  have g: "GUARD_OFFSET = 0x170000" "GUARD_SIZE = 0x10000"
    by (simp_all add: GUARD_OFFSET_def GUARD_SIZE_def STACK_SIZE_def SAFE_STACK_SIZE_def)
  have h: "m_enable_blr_optimization jit_example" "IsCPUThread jit_env_example"
    "unat (m_stack jit_example) + 0x180000 < (2::nat) ^ 64"
    "m_stack jit_example + GUARD_OFFSET \<le> 0x7f0000170000"
    "0x7f0000170000 < m_stack jit_example + GUARD_OFFSET + GUARD_SIZE"
    by (simp_all add: jit_example_def jit_env_example_def g)
  note t = HandleFault_stack_guard [OF h, unfolded Let_def]
  from t have a: "fst (HandleFault jit_env_example 0x7f0000170000 jit_example)"
    by (elim conjE)
  from t have b: "jit_events (snd (HandleFault jit_env_example 0x7f0000170000 jit_example))
       = [WARN_BLR_cache_disabled, UnWriteProtectMemory 0x7f0000170000 0x10000,
          InvalidateICache 0 0xffffffff True, ForceExceptionCheck 0]"
    by (elim conjE) (simp add: jit_example_def jit_env_example_def g)
  from t have c: "\<not> m_enable_blr_optimization
         (run_calls jit_env_example [Call_Jit 0x80003100, Call_HandleFault 0x7f0000170000]
            (snd (HandleFault jit_env_example 0x7f0000170000 jit_example)))"
    by (elim conjE allE [of _ "[Call_Jit 0x80003100, Call_HandleFault 0x7f0000170000]"])
  from h a b c show ?thesis by simp
qed

text \<open>
  C4 as stated fails in two ways. A fault at the same address taken off the CPU thread is not
  handled: \<open>HandleFault\<close> returns false and changes nothing. And on a POSIX build the next entry
  into \<open>Jit\<close> after a handled fault only clears the cache: nothing protects the guard again.
\<close>

theorem HandleFault_counterexample:
  "m_enable_blr_optimization jit_example
   \<and> m_stack jit_example + GUARD_OFFSET \<le> 0x7f0000170000
   \<and> 0x7f0000170000 < m_stack jit_example + GUARD_OFFSET + GUARD_SIZE
   \<and> HandleFault (jit_env_example\<lparr>IsCPUThread := False\<rparr>) 0x7f0000170000 jit_example
       = (False, jit_example)
   \<and> jit_events (snd (Jit jit_env_example 0x80003100 True
                        (snd (HandleFault jit_env_example 0x7f0000170000 jit_example))))
       = [WARN_BLR_cache_disabled, UnWriteProtectMemory 0x7f0000170000 0x10000,
          InvalidateICache 0 0xffffffff True, ForceExceptionCheck 0, ClearCache_called]"
proof -
  have g: "GUARD_OFFSET = 0x170000" "GUARD_SIZE = 0x10000"
    by (simp_all add: GUARD_OFFSET_def GUARD_SIZE_def STACK_SIZE_def SAFE_STACK_SIZE_def)
  have a: "m_enable_blr_optimization jit_example
   \<and> m_stack jit_example + GUARD_OFFSET \<le> 0x7f0000170000
   \<and> 0x7f0000170000 < m_stack jit_example + GUARD_OFFSET + GUARD_SIZE"
    by (simp add: jit_example_def g)
  have b: "HandleFault (jit_env_example\<lparr>IsCPUThread := False\<rparr>) 0x7f0000170000 jit_example
       = (False, jit_example)"
    by (simp add: HandleFault_def HandleStackFault_def Let_def g jit_example_def)
  have c: "jit_events (snd (Jit jit_env_example 0x80003100 True
                        (snd (HandleFault jit_env_example 0x7f0000170000 jit_example))))
       = [WARN_BLR_cache_disabled, UnWriteProtectMemory 0x7f0000170000 0x10000,
          InvalidateICache 0 0xffffffff True, ForceExceptionCheck 0, ClearCache_called]"
    by (simp add: HandleFault_def HandleStackFault_def Let_def g
      Jit_retry Jit_no_retry Jit_attempt_def Jit_cleanup_after_stackfault_def
      Jit_flush_trampolines_def Jit_drain_freed_ranges_def Jit_debugging_def
      Jit_commit_block_def SetEmitterStateToFreeCodeRegion_def ClearCache_def
      ResetFreeMemoryRanges_def jit_event_def jit_env_example_def jit_example_def)
  from a b c show ?thesis by simp
qed

end
